theory Spec2Isabelle
  imports Complex_Main
begin

section \<open>JSON values as the Python code sees them\<close>

text \<open>
  Both programs keep their records as the Python values that \<^verbatim>\<open>json.load\<close> returns and
  \<^verbatim>\<open>json.dump\<close> accepts: \<^verbatim>\<open>None\<close>, booleans, integers, floats, strings, lists and
  dictionaries with string keys. A dictionary is an association list in insertion
  order; a key is looked up with \<open>map_of\<close>. \<open>JFloat\<close> carries the exact value of a finite
  float; the constants \<^verbatim>\<open>NaN\<close> and \<^verbatim>\<open>Infinity\<close>, which Python's json module accepts beyond
  the JSON standard, are not part of this model.
\<close>

datatype json =
    JNull
  | JBool bool
  | JInt int
  | JFloat rat
  | JStr string
  | JArr "json list"
  | JObj "(string \<times> json) list"

datatype py_error =
  KeyError | TypeError | AttributeError | OSError | ValueError | RecursionError

text \<open>\<^verbatim>\<open>bool(x)\<close>, as used by \<^verbatim>\<open>not employee_data[field]\<close> and \<^verbatim>\<open>if employee:\<close>.\<close>

fun truthy :: "json \<Rightarrow> bool" where
  "truthy JNull = False"
| "truthy (JBool b) = b"
| "truthy (JInt i) = (i \<noteq> 0)"
| "truthy (JFloat q) = (q \<noteq> 0)"
| "truthy (JStr s) = (s \<noteq> [])"
| "truthy (JArr xs) = (xs \<noteq> [])"
| "truthy (JObj a) = (a \<noteq> [])"

text \<open>
  The numeric value of the values that Python compares as numbers: \<^verbatim>\<open>bool\<close> is a
  subclass of \<^verbatim>\<open>int\<close>, and an \<^verbatim>\<open>int\<close> is compared with a \<^verbatim>\<open>float\<close> by exact value.
\<close>

fun num_of :: "json \<Rightarrow> rat option" where
  "num_of (JBool b) = Some (if b then 1 else 0)"
| "num_of (JInt i) = Some (of_int i)"
| "num_of (JFloat q) = Some q"
| "num_of _ = None"

text \<open>
  \<^verbatim>\<open>x == y\<close>. Lists are equal when they have the same length and equal elements;
  dictionaries when they have the same keys and equal values under each key, in any
  order; values of different kinds are unequal, numbers apart.
\<close>

function (sequential) py_eq :: "json \<Rightarrow> json \<Rightarrow> bool" where
  "py_eq JNull JNull = True"
| "py_eq (JStr s) (JStr t) = (s = t)"
| "py_eq (JArr xs) (JArr ys) =
     (length xs = length ys \<and> list_all (\<lambda>(x, y). py_eq x y) (zip xs ys))"
| "py_eq (JObj a) (JObj b) =
     (list_all (\<lambda>k. map_of a k \<noteq> None) (map fst b) \<and>
      list_all (\<lambda>k. case map_of a k of None \<Rightarrow> False
                 | Some v \<Rightarrow> (case map_of b k of None \<Rightarrow> False | Some w \<Rightarrow> py_eq v w))
        (map fst a))"
| "py_eq x y = (case num_of x of None \<Rightarrow> False
                 | Some p \<Rightarrow> (case num_of y of None \<Rightarrow> False | Some q \<Rightarrow> p = q))"
  by pat_completeness auto

lemma size_map_of:
  "map_of a k = Some v \<Longrightarrow> size v < Suc (size_list (size_prod (\<lambda>_. 0) size) a)"
  by (induction a) (auto split: if_splits)

lemma size_zip_left:
  assumes "(x, y) \<in> set (zip xs ys)"
  shows "size x < Suc (size_list size xs)"
proof -
  from assms have "x \<in> set xs" by (rule set_zip_leftD)
  then have "size x \<le> size_list size xs" by (rule size_list_estimation') simp
  then show ?thesis by simp
qed

termination py_eq
  apply (relation "measure (\<lambda>(x, y). size x)")
    apply simp
   apply (auto simp: size_zip_left size_map_of)
  done

text \<open>\<^verbatim>\<open>x[key]\<close> with a string key: only a dictionary can be subscripted by a string.\<close>

fun py_getitem :: "json \<Rightarrow> string \<Rightarrow> py_error + json" where
  "py_getitem (JObj a) k = (case map_of a k of None \<Rightarrow> Inl KeyError | Some v \<Rightarrow> Inr v)"
| "py_getitem _ k = Inl TypeError"

text \<open>
  \<^verbatim>\<open>for employee in x\<close>: a list yields its elements, a dictionary its keys, a string
  its characters; nothing else can be iterated.
\<close>

fun py_iter :: "json \<Rightarrow> py_error + json list" where
  "py_iter (JArr xs) = Inr xs"
| "py_iter (JObj a) = Inr (map (\<lambda>kv. JStr (fst kv)) a)"
| "py_iter (JStr s) = Inr (map (\<lambda>c. JStr [c]) s)"
| "py_iter _ = Inl TypeError"

text \<open>\<^verbatim>\<open>x.append(d)\<close>: only a list has the method.\<close>

fun py_append :: "json \<Rightarrow> json \<Rightarrow> py_error + json" where
  "py_append (JArr xs) d = Inr (JArr (xs @ [d]))"
| "py_append _ d = Inl AttributeError"

fun is_substring :: "string \<Rightarrow> string \<Rightarrow> bool" where
  "is_substring k [] = (k = [])"
| "is_substring k (c # cs) = (take (length k) (c # cs) = k \<or> is_substring k cs)"

text \<open>
  \<^verbatim>\<open>key in x\<close> with a string key: key membership in a dictionary, element membership
  in a list, substring test in a string, \<^verbatim>\<open>TypeError\<close> otherwise.
\<close>

fun py_contains :: "string \<Rightarrow> json \<Rightarrow> py_error + bool" where
  "py_contains k (JObj a) = Inr (map_of a k \<noteq> None)"
| "py_contains k (JArr xs) = Inr (list_ex (\<lambda>x. py_eq x (JStr k)) xs)"
| "py_contains k (JStr s) = Inr (is_substring k s)"
| "py_contains k _ = Inl TypeError"

section \<open>The data file\<close>

text \<open>
  Each program works on one path, \<^verbatim>\<open>employees.json\<close>. What is at that path is either
  nothing, or a file. A file is described by what reading it does: \<open>Unreadable\<close> is a
  file on which \<^verbatim>\<open>open(path, 'r')\<close> or \<^verbatim>\<open>json.load\<close> raises an error other than
  \<^verbatim>\<open>FileNotFoundError\<close> and \<^verbatim>\<open>JSONDecodeError\<close> (a \<^verbatim>\<open>PermissionError\<close>, bytes that are
  not text, a JSON text beyond the limits of the interpreter); \<open>Malformed\<close> is text that
  is not JSON, on which \<^verbatim>\<open>json.load\<close> raises \<^verbatim>\<open>JSONDecodeError\<close>; \<open>Doc indent v\<close> is the
  text that \<^verbatim>\<open>json.dump(v, file, indent=indent)\<close> writes (\<open>None\<close> the default, compact
  form; the text itself is \<open>json_dump indent v\<close> below), which \<^verbatim>\<open>json.load\<close> reads back
  as \<open>v\<close>.

  Writing can fail at two places. \<open>open_fault\<close> says whether \<^verbatim>\<open>open(path, 'w')\<close> raises,
  and with which message; then the path is left as it was. \<open>dump_fault\<close> says whether
  \<^verbatim>\<open>json.dump\<close> of a value raises once the file is open, and what: an error of the
  device, or a value that the encoder of this interpreter refuses (an integer with
  too many digits, a nesting too deep). By then \<^verbatim>\<open>open\<close> has emptied the file, and
  what is left is the part of the text written so far: for the arrays that the
  programs write this is never JSON, and the file is \<open>Malformed\<close>. \<open>console\<close> is the
  standard output, one entry per \<^verbatim>\<open>print\<close>.
\<close>

datatype content = Unreadable | Malformed | Doc "nat option" json

record env =
  data_file :: "content option"
  open_fault :: "string option"
  dump_fault :: "json \<Rightarrow> (py_error \<times> string) option"
  console :: "string list"

section \<open>The text that json.dump writes\<close>

text \<open>
  The text is a list of characters, in which the \<^verbatim>\<open>repr\<close> of a float stands as one
  item of its own, \<open>FloatRepr\<close>: which digits Python prints for a float is not modelled.
  The rest follows the encoder of Python's json module with its default settings:
  \<^verbatim>\<open>ensure_ascii\<close>, the separators \<^verbatim>\<open>', '\<close> and \<^verbatim>\<open>': '\<close> without \<^verbatim>\<open>indent\<close>, and
  \<^verbatim>\<open>','\<close> followed by a new line and \<^verbatim>\<open>indent\<close> spaces per level of nesting with it.
\<close>

datatype piece = Ch char | FloatRepr rat

definition lit :: "string \<Rightarrow> piece list" where
  "lit s = map Ch s"

definition digit_char :: "nat \<Rightarrow> char" where
  "digit_char d = ''0123456789abcdef'' ! d"

function digits :: "nat \<Rightarrow> string" where
  "digits n = (if n < 10 then [digit_char n] else digits (n div 10) @ [digit_char (n mod 10)])"
  by pat_completeness auto
termination
  by (relation "measure id") auto

declare digits.simps [simp del]

definition int_repr :: "int \<Rightarrow> string" where
  "int_repr i = (if i < 0 then CHR ''-'' # digits (nat (- i)) else digits (nat i))"

definition escape_char :: "char \<Rightarrow> string" where
  "escape_char c =
     (if c = CHR 0x22 then [CHR 0x5C, CHR 0x22]
      else if c = CHR 0x5C then [CHR 0x5C, CHR 0x5C]
      else if c = CHR 0x0A then [CHR 0x5C, CHR ''n'']
      else if c = CHR 0x0D then [CHR 0x5C, CHR ''r'']
      else if c = CHR 0x09 then [CHR 0x5C, CHR ''t'']
      else if c = CHR 0x08 then [CHR 0x5C, CHR ''b'']
      else if c = CHR 0x0C then [CHR 0x5C, CHR ''f'']
      else if (of_char c :: nat) < 0x20 \<or> 0x7E < (of_char c :: nat)
        then [CHR 0x5C, CHR ''u'', CHR ''0'', CHR ''0'',
              digit_char (of_char c div 16), digit_char (of_char c mod 16)]
      else [c])"

definition encode_str :: "string \<Rightarrow> piece list" where
  "encode_str s = lit (CHR 0x22 # concat (map escape_char s) @ [CHR 0x22])"

definition newline_indent :: "nat option \<Rightarrow> nat \<Rightarrow> piece list" where
  "newline_indent indent level =
     (case indent of None \<Rightarrow> [] | Some n \<Rightarrow> Ch (CHR 0x0A) # replicate (n * level) (Ch CHR '' ''))"

definition separator :: "nat option \<Rightarrow> nat \<Rightarrow> piece list" where
  "separator indent level =
     (case indent of None \<Rightarrow> lit '', '' | Some n \<Rightarrow> lit '','' @ newline_indent indent level)"

lemma size_snd_member:
  "kv \<in> set a \<Longrightarrow> size (snd kv) < Suc (size_list (size_prod (\<lambda>_. 0) size) a)"
  by (induction a) (auto simp: less_Suc_eq_le)

lemma size_member:
  "x \<in> set xs \<Longrightarrow> size x < Suc (size_list size xs)"
  by (induction xs) (auto simp: less_Suc_eq_le)

function iterencode :: "nat option \<Rightarrow> nat \<Rightarrow> json \<Rightarrow> piece list" where
  "iterencode indent level JNull = lit ''null''"
| "iterencode indent level (JBool b) = lit (if b then ''true'' else ''false'')"
| "iterencode indent level (JInt i) = lit (int_repr i)"
| "iterencode indent level (JFloat q) = [FloatRepr q]"
| "iterencode indent level (JStr s) = encode_str s"
| "iterencode indent level (JArr []) = lit ''[]''"
| "iterencode indent level (JArr (x # xs)) =
     lit ''['' @ newline_indent indent (Suc level)
     @ iterencode indent (Suc level) x
     @ concat (map (\<lambda>y. separator indent (Suc level) @ iterencode indent (Suc level) y) xs)
     @ newline_indent indent level @ lit '']''"
| "iterencode indent level (JObj []) = lit ''{}''"
| "iterencode indent level (JObj ((k, v) # a)) =
     lit ''{'' @ newline_indent indent (Suc level)
     @ encode_str k @ lit '': '' @ iterencode indent (Suc level) v
     @ concat (map (\<lambda>m. separator indent (Suc level) @ encode_str (fst m) @ lit '': ''
                      @ iterencode indent (Suc level) (snd m)) a)
     @ newline_indent indent level @ lit ''}''"
  by pat_completeness auto
termination
  by (relation "measure (\<lambda>(indent, level, v). size v)")
     (auto dest!: size_member size_snd_member)

definition json_dump :: "nat option \<Rightarrow> json \<Rightarrow> piece list" where
  "json_dump indent v = iterencode indent 0 v"


definition file_text :: "env \<Rightarrow> piece list option" where
  "file_text e = (case data_file e of Some (Doc indent v) \<Rightarrow> Some (json_dump indent v) | _ \<Rightarrow> None)"

definition one_line :: "piece list \<Rightarrow> bool" where
  "one_line t = (Ch (CHR 0x0A) \<notin> set t)"

section \<open>The class EmployeeManagementSystem\<close>

text \<open>
  The methods \<^verbatim>\<open>__init__\<close>, \<^verbatim>\<open>_load_data\<close>, \<^verbatim>\<open>view_all_employees\<close> and
  \<^verbatim>\<open>search_employee\<close> are the same text in \<^verbatim>\<open>app.py\<close> and in
  \<^verbatim>\<open>employee_management_system.py\<close>, and are modelled once. \<^verbatim>\<open>_save_data\<close> and
  \<^verbatim>\<open>add_employee\<close> differ, and are modelled once per file: \<open>app_\<close> for the HTTP
  program, \<open>cli_\<close> for the interactive one. Every method takes the state of the
  world and returns it with its result; \<open>Inl\<close> is an exception that leaves the method.
\<close>

text \<open>
  The block \<^verbatim>\<open>with open(self.data_file_path, 'w') as file: json.dump(data, file, ...)\<close>
  of \<^verbatim>\<open>__init__\<close> and \<^verbatim>\<open>_save_data\<close>: the error it raises, with its message, or the
  file written.
\<close>

definition write_json ::
  "env \<Rightarrow> nat option \<Rightarrow> json \<Rightarrow> (py_error \<times> string + unit) \<times> env" where
  "write_json e indent data =
     (case open_fault e of
        Some msg \<Rightarrow> (Inl (OSError, msg), e)
      | None \<Rightarrow>
          (case dump_fault e data of
             Some err \<Rightarrow> (Inl err, e\<lparr>data_file := Some Malformed\<rparr>)
           | None \<Rightarrow> (Inr (), e\<lparr>data_file := Some (Doc indent data)\<rparr>)))"

definition init :: "env \<Rightarrow> (py_error + unit) \<times> env" where
  "init e =
     (case data_file e of
        None \<Rightarrow>
          (case write_json e None (JArr []) of
             (Inl err, e1) \<Rightarrow> (Inl (fst err), e1)
           | (Inr u, e1) \<Rightarrow> (Inr (), e1))
      | Some c \<Rightarrow> (Inr (), e))"

definition load_data :: "env \<Rightarrow> (py_error + json) \<times> env" where
  "load_data e =
     (case data_file e of
        None \<Rightarrow> (Inr (JArr []), e)
      | Some Unreadable \<Rightarrow> (Inl OSError, e)
      | Some Malformed \<Rightarrow> (Inr (JArr []), e)
      | Some (Doc i v) \<Rightarrow> (Inr v, e))"

text \<open>
  \<^verbatim>\<open>_save_data\<close> catches every exception of the block, also one raised after the file
  was emptied; the interactive program prints it.
\<close>

definition app_save_data :: "env \<Rightarrow> json \<Rightarrow> bool \<times> env" where
  "app_save_data e data =
     (case write_json e (Some 4) data of
        (Inr u, e1) \<Rightarrow> (True, e1)
      | (Inl err, e1) \<Rightarrow> (False, e1))"

definition cli_save_data :: "env \<Rightarrow> json \<Rightarrow> bool \<times> env" where
  "cli_save_data e data =
     (case write_json e (Some 4) data of
        (Inr u, e1) \<Rightarrow> (True, e1)
      | (Inl err, e1) \<Rightarrow>
          (False, e1\<lparr>console := console e1 @ [''Error saving data: '' @ snd err]\<rparr>))"

text \<open>
  The loop of \<^verbatim>\<open>add_employee\<close> over the loaded records: \<open>Inr True\<close> when it returns
  from inside the loop at a record with an equal id, \<open>Inr False\<close> when it runs to
  the end. \<^verbatim>\<open>employee['id']\<close> is evaluated before \<^verbatim>\<open>employee_data['id']\<close>.
\<close>

fun dup_scan :: "json list \<Rightarrow> json \<Rightarrow> py_error + bool" where
  "dup_scan [] employee_data = Inr False"
| "dup_scan (employee # rest) employee_data =
     (case py_getitem employee ''id'' of
        Inl x \<Rightarrow> Inl x
      | Inr a \<Rightarrow>
          (case py_getitem employee_data ''id'' of
             Inl x \<Rightarrow> Inl x
           | Inr b \<Rightarrow> if py_eq a b then Inr True else dup_scan rest employee_data))"

text \<open>
  What \<^verbatim>\<open>add_employee\<close> returns: the pair \<^verbatim>\<open>(bool, str)\<close> in \<^verbatim>\<open>app.py\<close>, a bare
  \<^verbatim>\<open>bool\<close> in \<^verbatim>\<open>employee_management_system.py\<close>.
\<close>

datatype add_result = RBool bool | RPair bool string

definition app_add_employee :: "env \<Rightarrow> json \<Rightarrow> (py_error + add_result) \<times> env" where
  "app_add_employee e employee_data =
     (case load_data e of
        (Inl x, e1) \<Rightarrow> (Inl x, e1)
      | (Inr all_employees, e1) \<Rightarrow>
          (case py_iter all_employees of
             Inl x \<Rightarrow> (Inl x, e1)
           | Inr items \<Rightarrow>
               (case dup_scan items employee_data of
                  Inl x \<Rightarrow> (Inl x, e1)
                | Inr found \<Rightarrow>
                    if found then (Inr (RPair False ''Employee ID already exists''), e1)
                    else
                      (case py_append all_employees employee_data of
                         Inl x \<Rightarrow> (Inl x, e1)
                       | Inr appended \<Rightarrow>
                           (case app_save_data e1 appended of
                              (saved, e2) \<Rightarrow>
                                if saved then (Inr (RPair True ''Employee added successfully''), e2)
                                else (Inr (RPair False ''Error saving employee''), e2))))))"

definition cli_add_employee :: "env \<Rightarrow> json \<Rightarrow> (py_error + add_result) \<times> env" where
  "cli_add_employee e employee_data =
     (case load_data e of
        (Inl x, e1) \<Rightarrow> (Inl x, e1)
      | (Inr all_employees, e1) \<Rightarrow>
          (case py_iter all_employees of
             Inl x \<Rightarrow> (Inl x, e1)
           | Inr items \<Rightarrow>
               (case dup_scan items employee_data of
                  Inl x \<Rightarrow> (Inl x, e1)
                | Inr found \<Rightarrow>
                    if found
                    then (Inr (RBool False),
                          e1\<lparr>console := console e1 @
                                ''Error: An employee with this ID already exists.'' # []\<rparr>)
                    else
                      (case py_append all_employees employee_data of
                         Inl x \<Rightarrow> (Inl x, e1)
                       | Inr appended \<Rightarrow>
                           (case cli_save_data e1 appended of
                              (saved, e2) \<Rightarrow> (Inr (RBool saved), e2))))))"

definition view_all_employees :: "env \<Rightarrow> (py_error + json) \<times> env" where
  "view_all_employees e = load_data e"

text \<open>The loop of \<^verbatim>\<open>search_employee\<close>: the first record whose id equals \<open>emp_id\<close>.\<close>

fun find_scan :: "json list \<Rightarrow> json \<Rightarrow> py_error + json option" where
  "find_scan [] emp_id = Inr None"
| "find_scan (employee # rest) emp_id =
     (case py_getitem employee ''id'' of
        Inl x \<Rightarrow> Inl x
      | Inr a \<Rightarrow> if py_eq a emp_id then Inr (Some employee) else find_scan rest emp_id)"

definition search_employee :: "env \<Rightarrow> json \<Rightarrow> (py_error + json option) \<times> env" where
  "search_employee e emp_id =
     (case load_data e of
        (Inl x, e1) \<Rightarrow> (Inl x, e1)
      | (Inr all_employees, e1) \<Rightarrow>
          (case py_iter all_employees of
             Inl x \<Rightarrow> (Inl x, e1)
           | Inr items \<Rightarrow>
               (case find_scan items emp_id of
                  Inl x \<Rightarrow> (Inl x, e1)
                | Inr r \<Rightarrow> (Inr r, e1))))"

section \<open>The class Employee of the interactive program\<close>

record employee =
  employee_id :: string
  employee_name :: string
  employee_department :: string
  employee_salary :: rat

definition get_details :: "employee \<Rightarrow> json" where
  "get_details emp =
     JObj [(''id'', JStr (employee_id emp)),
           (''name'', JStr (employee_name emp)),
           (''department'', JStr (employee_department emp)),
           (''salary'', JFloat (employee_salary emp))]"

section \<open>The routes of app.py\<close>

text \<open>
  A route takes what \<^verbatim>\<open>request.get_json()\<close> returned, or the id of the URL, and
  returns the status and the JSON body of its response. An exception that leaves a
  route (\<open>Inl\<close>) is answered by Flask with status 500.
\<close>

record response =
  status :: nat
  body :: json

definition required_fields :: "string list" where
  "required_fields = [''id'', ''name'', ''department'', ''salary'']"

text \<open>
  The validation loop of the POST route: \<open>Inr (Some field)\<close> at the first field that
  is absent or falsy, \<open>Inr None\<close> when the loop runs to the end.
\<close>

fun missing_field :: "json \<Rightarrow> string list \<Rightarrow> py_error + string option" where
  "missing_field employee_data [] = Inr None"
| "missing_field employee_data (field # rest) =
     (case py_contains field employee_data of
        Inl x \<Rightarrow> Inl x
      | Inr present \<Rightarrow>
          if \<not> present then Inr (Some field)
          else
            (case py_getitem employee_data field of
               Inl x \<Rightarrow> Inl x
             | Inr v \<Rightarrow>
                 if \<not> truthy v then Inr (Some field)
                 else missing_field employee_data rest))"

definition get_employees :: "env \<Rightarrow> (py_error + response) \<times> env" where
  "get_employees e =
     (case view_all_employees e of
        (Inl x, e1) \<Rightarrow> (Inl x, e1)
      | (Inr employees, e1) \<Rightarrow> (Inr \<lparr>status = 200, body = employees\<rparr>, e1))"

definition add_employee_route :: "env \<Rightarrow> json \<Rightarrow> (py_error + response) \<times> env" where
  "add_employee_route e employee_data =
     (case missing_field employee_data required_fields of
        Inl x \<Rightarrow> (Inl x, e)
      | Inr (Some field) \<Rightarrow>
          (Inr \<lparr>status = 400,
                body = JObj [(''error'', JStr (''Missing required field: '' @ field))]\<rparr>, e)
      | Inr None \<Rightarrow>
          (case app_add_employee e employee_data of
             (Inl x, e1) \<Rightarrow> (Inl x, e1)
           | (Inr (RBool b), e1) \<Rightarrow> (Inl TypeError, e1)
           | (Inr (RPair success message), e1) \<Rightarrow>
               if success
               then (Inr \<lparr>status = 201, body = JObj [(''message'', JStr message)]\<rparr>, e1)
               else (Inr \<lparr>status = 400, body = JObj [(''error'', JStr message)]\<rparr>, e1)))"

definition get_employee :: "env \<Rightarrow> string \<Rightarrow> (py_error + response) \<times> env" where
  "get_employee e emp_id =
     (case search_employee e (JStr emp_id) of
        (Inl x, e1) \<Rightarrow> (Inl x, e1)
      | (Inr None, e1) \<Rightarrow>
          (Inr \<lparr>status = 404, body = JObj [(''error'', JStr ''Employee not found'')]\<rparr>, e1)
      | (Inr (Some employee), e1) \<Rightarrow>
          if truthy employee then (Inr \<lparr>status = 200, body = employee\<rparr>, e1)
          else (Inr \<lparr>status = 404, body = JObj [(''error'', JStr ''Employee not found'')]\<rparr>, e1))"

section \<open>JSON texts\<close>

text \<open>
  The grammar of JSON (RFC 8259) over these texts: white space, the three names,
  numbers, strings with their escapes, arrays and objects. A float is one item of
  the text, so a number written in characters is an integer; the \<^verbatim>\<open>repr\<close> of a finite
  float is a JSON number.
\<close>

definition is_ws_char :: "char \<Rightarrow> bool" where
  "is_ws_char c = (c = CHR 0x20 \<or> c = CHR 0x0A \<or> c = CHR 0x0D \<or> c = CHR 0x09)"

fun is_ws_piece :: "piece \<Rightarrow> bool" where
  "is_ws_piece (Ch c) = is_ws_char c"
| "is_ws_piece (FloatRepr q) = False"

definition is_ws :: "piece list \<Rightarrow> bool" where
  "is_ws t = list_all is_ws_piece t"

definition is_digit :: "char \<Rightarrow> bool" where
  "is_digit c = (c \<in> set ''0123456789'')"

definition is_hex :: "char \<Rightarrow> bool" where
  "is_hex c = (c \<in> set ''0123456789abcdefABCDEF'')"

definition is_nat_text :: "string \<Rightarrow> bool" where
  "is_nat_text s = (s \<noteq> [] \<and> list_all is_digit s \<and> (s = ''0'' \<or> hd s \<noteq> CHR ''0''))"

fun is_int_text :: "string \<Rightarrow> bool" where
  "is_int_text [] = False"
| "is_int_text (c # cs) = (if c = CHR ''-'' then is_nat_text cs else is_nat_text (c # cs))"

function is_string_body :: "string \<Rightarrow> bool" where
  "is_string_body [] = True"
| "is_string_body (c # cs) =
     (if c = CHR 0x5C then
        (case cs of
           [] \<Rightarrow> False
         | d # ds \<Rightarrow>
             if d \<in> set [CHR 0x22, CHR 0x5C, CHR ''/'', CHR ''b'', CHR ''f'', CHR ''n'',
                          CHR ''r'', CHR ''t'']
             then is_string_body ds
             else d = CHR ''u'' \<and> 4 \<le> length ds \<and> list_all is_hex (take 4 ds)
                  \<and> is_string_body (drop 4 ds))
      else c \<noteq> CHR 0x22 \<and> (0x20 :: nat) \<le> of_char c \<and> is_string_body cs)"
  by pat_completeness auto
termination
  by (relation "measure length") auto

inductive json_value :: "piece list \<Rightarrow> bool"
  and json_elements :: "piece list \<Rightarrow> bool"
  and json_members :: "piece list \<Rightarrow> bool" where
  null: "json_value (lit ''null'')"
| true: "json_value (lit ''true'')"
| false: "json_value (lit ''false'')"
| float: "json_value [FloatRepr q]"
| int: "is_int_text s \<Longrightarrow> json_value (lit s)"
| string: "is_string_body s \<Longrightarrow> json_value (Ch (CHR 0x22) # lit s @ [Ch (CHR 0x22)])"
| empty_array: "is_ws w \<Longrightarrow> json_value (Ch CHR ''['' # w @ [Ch CHR '']''])"
| array: "json_elements es \<Longrightarrow> json_value (Ch CHR ''['' # es @ [Ch CHR '']''])"
| empty_object: "is_ws w \<Longrightarrow> json_value (Ch CHR ''{'' # w @ [Ch CHR ''}''])"
| object: "json_members ms \<Longrightarrow> json_value (Ch CHR ''{'' # ms @ [Ch CHR ''}''])"
| element: "is_ws w1 \<Longrightarrow> json_value v \<Longrightarrow> is_ws w2 \<Longrightarrow> json_elements (w1 @ v @ w2)"
| elements: "is_ws w1 \<Longrightarrow> json_value v \<Longrightarrow> is_ws w2 \<Longrightarrow> json_elements es
     \<Longrightarrow> json_elements (w1 @ v @ w2 @ Ch CHR '','' # es)"
| member: "is_ws w1 \<Longrightarrow> is_string_body k \<Longrightarrow> is_ws w2 \<Longrightarrow> is_ws w3 \<Longrightarrow> json_value v
     \<Longrightarrow> is_ws w4
     \<Longrightarrow> json_members (w1 @ Ch (CHR 0x22) # lit k @ Ch (CHR 0x22) # w2 @ Ch CHR '':'' # w3
                       @ v @ w4)"
| members: "is_ws w1 \<Longrightarrow> is_string_body k \<Longrightarrow> is_ws w2 \<Longrightarrow> is_ws w3 \<Longrightarrow> json_value v
     \<Longrightarrow> is_ws w4 \<Longrightarrow> json_members ms
     \<Longrightarrow> json_members (w1 @ Ch (CHR 0x22) # lit k @ Ch (CHR 0x22) # w2 @ Ch CHR '':'' # w3
                       @ v @ w4 @ Ch CHR '','' # ms)"

inductive json_text :: "piece list \<Rightarrow> bool" where
  "is_ws w1 \<Longrightarrow> json_value v \<Longrightarrow> is_ws w2 \<Longrightarrow> json_text (w1 @ v @ w2)"

section \<open>Notions used to state the properties\<close>

text \<open>A record has an id when \<^verbatim>\<open>r['id']\<close> evaluates.\<close>

definition has_id :: "json \<Rightarrow> bool" where
  "has_id r = (case py_getitem r ''id'' of Inl x \<Rightarrow> False | Inr a \<Rightarrow> True)"

text \<open>The test \<^verbatim>\<open>r['id'] == x\<close> of both loops, false when \<open>r\<close> has no id.\<close>

definition id_is :: "json \<Rightarrow> json \<Rightarrow> bool" where
  "id_is x r = (case py_getitem r ''id'' of Inl e \<Rightarrow> False | Inr a \<Rightarrow> py_eq a x)"

text \<open>Two records have the same id: \<^verbatim>\<open>r['id'] == s['id']\<close>, \<open>r\<close> the earlier one.\<close>

definition same_id :: "json \<Rightarrow> json \<Rightarrow> bool" where
  "same_id r s = (case py_getitem s ''id'' of Inl e \<Rightarrow> False | Inr b \<Rightarrow> id_is b r)"

text \<open>At most one record per id: no record has the id of an earlier one.\<close>

fun unique_ids :: "json list \<Rightarrow> bool" where
  "unique_ids [] = True"
| "unique_ids (r # rs) = (\<not> list_ex (same_id r) rs \<and> unique_ids rs)"

text \<open>The records in the store: the elements of the array in the file, if there is one.\<close>

definition records :: "env \<Rightarrow> json list" where
  "records e = (case data_file e of Some (Doc i (JArr xs)) \<Rightarrow> xs | _ \<Rightarrow> [])"

definition store_inv :: "env \<Rightarrow> bool" where
  "store_inv e = unique_ids (records e)"

text \<open>An add succeeded: it returned, and its flag is \<^verbatim>\<open>True\<close>.\<close>

fun is_success :: "py_error + add_result \<Rightarrow> bool" where
  "is_success (Inl x) = False"
| "is_success (Inr (RBool b)) = b"
| "is_success (Inr (RPair b m)) = b"

text \<open>A caller that adds the records of a list one after the other, with either add.\<close>

fun add_all :: "(env \<Rightarrow> json \<Rightarrow> (py_error + add_result) \<times> env) \<Rightarrow> env \<Rightarrow> json list
    \<Rightarrow> (py_error + add_result) list \<times> env" where
  "add_all add e [] = ([], e)"
| "add_all add e (r # rs) =
     (case add e r of (res, e1) \<Rightarrow>
        (case add_all add e1 rs of (ress, e2) \<Rightarrow> (res # ress, e2)))"

text \<open>The result is the pair \<^verbatim>\<open>(bool, str)\<close>.\<close>

fun returns_pair :: "py_error + add_result \<Rightarrow> bool" where
  "returns_pair (Inr (RPair b m)) = True"
| "returns_pair _ = False"

text \<open>Nothing goes wrong when the value is written to the file.\<close>

definition write_ok :: "env \<Rightarrow> json \<Rightarrow> bool" where
  "write_ok e d = (open_fault e = None \<and> dump_fault e d = None)"

text \<open>A field of a request body is present and truthy.\<close>

definition field_ok :: "json \<Rightarrow> string \<Rightarrow> bool" where
  "field_ok d f = (case py_getitem d f of Inl x \<Rightarrow> False | Inr v \<Rightarrow> truthy v)"

text \<open>
  Sample data: no file yet; a path that cannot be opened for writing; a file that
  cannot be read; a device on which every write fails after the file was opened;
  the record of the specification's example, and others.
\<close>

definition write_denied :: env where
  "write_denied = \<lparr>data_file = None, open_fault = Some ''Permission denied'',
     dump_fault = (\<lambda>d. None), console = []\<rparr>"

definition unreadable_file :: env where
  "unreadable_file = \<lparr>data_file = Some Unreadable, open_fault = None,
     dump_fault = (\<lambda>d. None), console = []\<rparr>"

definition emp_E1 :: json where
  "emp_E1 = get_details \<lparr>employee_id = ''E1'', employee_name = ''A'',
     employee_department = ''Eng'', employee_salary = 50000\<rparr>"

definition emp_E2 :: json where
  "emp_E2 = get_details \<lparr>employee_id = ''E2'', employee_name = ''B'',
     employee_department = ''Ops'', employee_salary = 42000\<rparr>"

definition one_record :: env where
  "one_record = \<lparr>data_file = Some (Doc (Some 4) (JArr [emp_E1])), open_fault = None,
     dump_fault = (\<lambda>d. None), console = []\<rparr>"

definition disk_full :: env where
  "disk_full = \<lparr>data_file = Some (Doc (Some 4) (JArr [emp_E1])), open_fault = None,
     dump_fault = (\<lambda>d. Some (OSError, ''No space left on device'')), console = []\<rparr>"

definition emp_E1_again :: json where
  "emp_E1_again = get_details \<lparr>employee_id = ''E1'', employee_name = ''Z'',
     employee_department = ''Ops'', employee_salary = 1\<rparr>"

definition no_salary :: json where
  "no_salary = JObj [(''id'', JStr ''E3''), (''name'', JStr ''C''), (''department'', JStr ''Eng'')]"

definition no_file :: env where
  "no_file = \<lparr>data_file = None, open_fault = None, dump_fault = (\<lambda>d. None), console = []\<rparr>"

section \<open>Facts about the Python primitives and the methods\<close>

lemma py_eq_refl: "py_eq x x"
proof (induction x)
  case (JArr xs)
  then show ?case by (induction xs) auto
next
  case (JObj a)
  have "py_eq v v" if "map_of a k = Some v" for k v
  proof -
    from that have "(k, v) \<in> set a" by (rule map_of_SomeD)
    then show ?thesis using JObj.IH by fastforce
  qed
  then show ?case
    by (auto simp: list_all_iff split: option.splits dest: weak_map_of_SomeI)
qed auto

lemma load_data_cases:
  "load_data e = (Inl OSError, e) \<and> data_file e = Some Unreadable
   \<or> (\<exists>v. load_data e = (Inr v, e))"
  by (simp add: load_data_def split: option.splits content.splits)

lemma load_data_JArr_records:
  "fst (load_data e) = Inr (JArr xs) \<Longrightarrow> records e = xs"
  by (auto simp: load_data_def records_def split: option.splits content.splits)

lemma load_after_write:
  "load_data (e\<lparr>data_file := Some (Doc i v)\<rparr>) = (Inr v, e\<lparr>data_file := Some (Doc i v)\<rparr>)"
  by (simp add: load_data_def)

lemma dup_scan_found:
  "list_all has_id xs \<Longrightarrow> py_getitem r ''id'' = Inr x
     \<Longrightarrow> dup_scan xs r = Inr (list_ex (id_is x) xs)"
  by (induction xs) (auto simp: has_id_def id_is_def split: sum.splits)

lemma dup_scan_FalseD:
  "dup_scan xs r = Inr False \<Longrightarrow> s \<in> set xs \<Longrightarrow>
     \<exists>a b. py_getitem s ''id'' = Inr a \<and> py_getitem r ''id'' = Inr b \<and> \<not> py_eq a b"
  by (induction xs) (auto split: sum.splits if_splits)

lemma scan_no_match:
  assumes "dup_scan xs r = Inr False" and "py_getitem r ''id'' = Inr x" and "s \<in> set xs"
  shows "\<exists>a. py_getitem s ''id'' = Inr a \<and> \<not> py_eq a x"
  using dup_scan_FalseD [OF assms(1,3)] assms(2) by auto

text \<open>The three outcomes of the block that writes.\<close>

lemma write_json_ok:
  "write_ok e d \<Longrightarrow> write_json e i d = (Inr (), e\<lparr>data_file := Some (Doc i d)\<rparr>)"
  by (simp add: write_json_def write_ok_def)

lemma write_json_open_fails:
  "open_fault e = Some msg \<Longrightarrow> write_json e i d = (Inl (OSError, msg), e)"
  by (simp add: write_json_def)

lemma write_json_dump_fails:
  "open_fault e = None \<Longrightarrow> dump_fault e d = Some err
     \<Longrightarrow> write_json e i d = (Inl err, e\<lparr>data_file := Some Malformed\<rparr>)"
  by (simp add: write_json_def)

lemma write_json_cases:
  "write_ok e d \<and> write_json e i d = (Inr (), e\<lparr>data_file := Some (Doc i d)\<rparr>)
   \<or> (\<exists>msg. open_fault e = Some msg \<and> write_json e i d = (Inl (OSError, msg), e))
   \<or> (\<exists>err. open_fault e = None \<and> dump_fault e d = Some err
         \<and> write_json e i d = (Inl err, e\<lparr>data_file := Some Malformed\<rparr>))"
  by (cases "open_fault e"; cases "dump_fault e d") (simp_all add: write_json_def write_ok_def)

text \<open>Both adds on a store that holds an array.\<close>

lemma app_add_JArr:
  "fst (load_data e) = Inr (JArr xs) \<Longrightarrow>
   app_add_employee e r =
     (case dup_scan xs r of
        Inl x \<Rightarrow> (Inl x, e)
      | Inr found \<Rightarrow>
          if found then (Inr (RPair False ''Employee ID already exists''), e)
          else (case write_json e (Some 4) (JArr (xs @ [r])) of
                  (Inr u, e1) \<Rightarrow> (Inr (RPair True ''Employee added successfully''), e1)
                | (Inl err, e1) \<Rightarrow> (Inr (RPair False ''Error saving employee''), e1)))"
  using load_data_cases [of e]
  by (auto simp: app_add_employee_def app_save_data_def split: sum.splits prod.splits)

lemma cli_add_JArr:
  "fst (load_data e) = Inr (JArr xs) \<Longrightarrow>
   cli_add_employee e r =
     (case dup_scan xs r of
        Inl x \<Rightarrow> (Inl x, e)
      | Inr found \<Rightarrow>
          if found then (Inr (RBool False),
              e\<lparr>console := console e @ [''Error: An employee with this ID already exists.'']\<rparr>)
          else (case write_json e (Some 4) (JArr (xs @ [r])) of
                  (Inr u, e1) \<Rightarrow> (Inr (RBool True), e1)
                | (Inl err, e1) \<Rightarrow>
                    (Inr (RBool False),
                     e1\<lparr>console := console e1 @ [''Error saving data: '' @ snd err]\<rparr>)))"
  using load_data_cases [of e]
  by (auto simp: cli_add_employee_def cli_save_data_def split: sum.splits prod.splits)

lemma app_add_fresh:
  "fst (load_data e) = Inr (JArr xs) \<Longrightarrow> dup_scan xs r = Inr False
     \<Longrightarrow> write_ok e (JArr (xs @ [r]))
     \<Longrightarrow> app_add_employee e r = (Inr (RPair True ''Employee added successfully''),
                            e\<lparr>data_file := Some (Doc (Some 4) (JArr (xs @ [r])))\<rparr>)"
  by (simp add: app_add_JArr write_json_ok)

lemma cli_add_fresh:
  "fst (load_data e) = Inr (JArr xs) \<Longrightarrow> dup_scan xs r = Inr False
     \<Longrightarrow> write_ok e (JArr (xs @ [r]))
     \<Longrightarrow> cli_add_employee e r = (Inr (RBool True),
                            e\<lparr>data_file := Some (Doc (Some 4) (JArr (xs @ [r])))\<rparr>)"
  by (simp add: cli_add_JArr write_json_ok)

text \<open>An add succeeds only by appending to an array in which the scan found nothing.\<close>

lemma app_add_successD:
  assumes "is_success (fst (app_add_employee e r))"
  shows "\<exists>xs. fst (load_data e) = Inr (JArr xs) \<and> dup_scan xs r = Inr False
     \<and> write_ok e (JArr (xs @ [r]))
     \<and> app_add_employee e r = (Inr (RPair True ''Employee added successfully''),
                            e\<lparr>data_file := Some (Doc (Some 4) (JArr (xs @ [r])))\<rparr>)"
proof -
  obtain v where v: "load_data e = (Inr v, e)"
    using assms load_data_cases [of e] by (auto simp: app_add_employee_def)
  then obtain xs where xs: "v = JArr xs"
    using assms by (cases v) (auto simp: app_add_employee_def split: sum.splits if_splits)
  with v have l: "fst (load_data e) = Inr (JArr xs)" by simp
  have d: "dup_scan xs r = Inr False"
    using assms unfolding app_add_JArr [OF l] by (auto split: sum.splits if_splits)
  have w: "write_ok e (JArr (xs @ [r]))"
    using assms write_json_cases [of e "JArr (xs @ [r])" "Some 4"]
    unfolding app_add_JArr [OF l] d by auto
  from l d w app_add_fresh [OF l d w] show ?thesis by blast
qed

lemma cli_add_successD:
  assumes "is_success (fst (cli_add_employee e r))"
  shows "\<exists>xs. fst (load_data e) = Inr (JArr xs) \<and> dup_scan xs r = Inr False
     \<and> write_ok e (JArr (xs @ [r]))
     \<and> cli_add_employee e r = (Inr (RBool True),
                            e\<lparr>data_file := Some (Doc (Some 4) (JArr (xs @ [r])))\<rparr>)"
proof -
  obtain v where v: "load_data e = (Inr v, e)"
    using assms load_data_cases [of e] by (auto simp: cli_add_employee_def)
  then obtain xs where xs: "v = JArr xs"
    using assms
    by (cases v)
      (auto simp: cli_add_employee_def cli_save_data_def
        split: sum.splits if_splits prod.splits)
  with v have l: "fst (load_data e) = Inr (JArr xs)" by simp
  have d: "dup_scan xs r = Inr False"
    using assms unfolding cli_add_JArr [OF l]
    by (auto split: sum.splits if_splits)
  have w: "write_ok e (JArr (xs @ [r]))"
    using assms write_json_cases [of e "JArr (xs @ [r])" "Some 4"]
    unfolding cli_add_JArr [OF l] d by auto
  from l d w cli_add_fresh [OF l d w] show ?thesis by blast
qed

lemma search_JArr:
  "fst (load_data e) = Inr (JArr xs) \<Longrightarrow>
   search_employee e k = (case find_scan xs k of Inl x \<Rightarrow> (Inl x, e) | Inr r \<Rightarrow> (Inr r, e))"
  using load_data_cases [of e]
  by (auto simp: search_employee_def split: sum.splits)

lemma find_scan_append:
  assumes "\<And>s. s \<in> set xs \<Longrightarrow> \<exists>a. py_getitem s ''id'' = Inr a \<and> \<not> py_eq a x"
    and "py_getitem r ''id'' = Inr x"
  shows "find_scan (xs @ [r]) x = Inr (Some r)"
  using assms
proof (induction xs)
  case Nil
  then show ?case by (simp add: py_eq_refl)
next
  case (Cons s xs)
  obtain a where "py_getitem s ''id'' = Inr a" "\<not> py_eq a x"
    using Cons.prems(1) [of s] by auto
  then show ?case using Cons by simp
qed

lemma filter_id_is_append:
  assumes "\<And>s. s \<in> set xs \<Longrightarrow> \<exists>a. py_getitem s ''id'' = Inr a \<and> \<not> py_eq a x"
    and "py_getitem r ''id'' = Inr x"
  shows "filter (id_is x) (xs @ [r]) = [r]"
proof -
  have "\<not> id_is x s" if "s \<in> set xs" for s
    using assms(1) [OF that] by (auto simp: id_is_def)
  then have "filter (id_is x) xs = []"
    by (simp add: filter_empty_conv)
  then show ?thesis using assms(2) by (simp add: id_is_def py_eq_refl)
qed

lemma records_after_write:
  "records (e\<lparr>data_file := Some (Doc i (JArr xs))\<rparr>) = xs"
  by (simp add: records_def)

lemma dup_scan_append:
  assumes "\<And>s. s \<in> set xs \<Longrightarrow> \<exists>a. py_getitem s ''id'' = Inr a \<and> \<not> py_eq a x"
    and "py_getitem r1 ''id'' = Inr x" and "py_getitem r2 ''id'' = Inr x"
  shows "dup_scan (xs @ [r1]) r2 = Inr True"
  using assms
proof (induction xs)
  case Nil
  then show ?case by (simp add: py_eq_refl)
next
  case (Cons s xs)
  obtain a where "py_getitem s ''id'' = Inr a" "\<not> py_eq a x"
    using Cons.prems(1) [of s] by auto
  then show ?case using Cons by simp
qed

lemma unique_ids_append:
  "unique_ids (xs @ [r]) = (unique_ids xs \<and> \<not> list_ex (\<lambda>s. same_id s r) xs)"
  by (induction xs) auto

lemma unique_ids_prefix: "unique_ids (xs @ ys) \<Longrightarrow> unique_ids xs"
  by (induction xs) auto

lemma dup_scan_unique:
  assumes "list_all has_id (xs @ [r])" "\<not> list_ex (\<lambda>s. same_id s r) xs"
  shows "dup_scan xs r = Inr False"
proof -
  from assms(1) obtain x where x: "py_getitem r ''id'' = Inr x"
    by (auto simp: has_id_def split: sum.splits)
  have "\<not> list_ex (id_is x) xs"
    using assms(2) x by (auto simp: same_id_def list_ex_iff)
  then show ?thesis using dup_scan_found [of xs r x] assms(1) x by simp
qed

text \<open>A run of adds, each of which succeeded, appended its records in order.\<close>

lemma add_all_appends:
  assumes step: "\<And>e r. is_success (fst (add e r)) \<Longrightarrow>
      \<exists>xs. fst (load_data e) = Inr (JArr xs)
          \<and> snd (add e r) = e\<lparr>data_file := Some (Doc (Some 4) (JArr (xs @ [r])))\<rparr>"
  shows "fst (load_data e) = Inr (JArr xs) \<Longrightarrow> list_all is_success (fst (add_all add e rs))
     \<Longrightarrow> load_data (snd (add_all add e rs)) = (Inr (JArr (xs @ rs)), snd (add_all add e rs))"
proof (induction rs arbitrary: e xs)
  case Nil
  then show ?case using load_data_cases [of e] by auto
next
  case (Cons r rs)
  obtain res e1 where r: "add e r = (res, e1)" by (cases "add e r")
  obtain ress e2 where rs: "add_all add e1 rs = (ress, e2)" by (cases "add_all add e1 rs")
  from Cons.prems(2) r rs have ok: "is_success (fst (add e r))"
    and oks: "list_all is_success (fst (add_all add e1 rs))" by simp_all
  from step [OF ok] Cons.prems(1) r
  have e1: "e1 = e\<lparr>data_file := Some (Doc (Some 4) (JArr (xs @ [r])))\<rparr>" by auto
  then have l1: "fst (load_data e1) = Inr (JArr (xs @ [r]))" by (simp add: load_after_write)
  from Cons.IH [OF l1 oks] show ?case by (simp add: r rs)
qed

text \<open>
  The adds of such a run do succeed when the file can be written and the records,
  those of the store included, all have an id and no two the same one.
\<close>

lemma add_all_succeeds:
  assumes step: "\<And>e xs r. fst (load_data e) = Inr (JArr xs) \<Longrightarrow> write_ok e (JArr (xs @ [r])) \<Longrightarrow>
      dup_scan xs r = Inr False \<Longrightarrow>
      is_success (fst (add e r))
      \<and> snd (add e r) = e\<lparr>data_file := Some (Doc (Some 4) (JArr (xs @ [r])))\<rparr>"
  shows "fst (load_data e) = Inr (JArr xs) \<Longrightarrow> \<forall>d. write_ok e d \<Longrightarrow>
   list_all has_id (xs @ rs) \<Longrightarrow> unique_ids (xs @ rs) \<Longrightarrow>
   list_all is_success (fst (add_all add e rs))"
proof (induction rs arbitrary: e xs)
  case Nil
  then show ?case by simp
next
  case (Cons r rs)
  have u: "unique_ids ((xs @ [r]) @ rs)" and h: "list_all has_id ((xs @ [r]) @ rs)"
    using Cons.prems by simp_all
  from unique_ids_prefix [OF u] have "\<not> list_ex (\<lambda>s. same_id s r) xs"
    by (simp add: unique_ids_append)
  moreover have "list_all has_id (xs @ [r])" using Cons.prems(3) by simp
  ultimately have d: "dup_scan xs r = Inr False" by (rule dup_scan_unique [rotated])
  let ?e1 = "e\<lparr>data_file := Some (Doc (Some 4) (JArr (xs @ [r])))\<rparr>"
  have w: "write_ok e (JArr (xs @ [r]))" using Cons.prems(2) by simp
  from step [OF Cons.prems(1) w d]
  have ok: "is_success (fst (add e r))" and e1: "snd (add e r) = ?e1" by simp_all
  have w1: "\<forall>d. write_ok ?e1 d" using Cons.prems(2) by (simp add: write_ok_def)
  have "list_all is_success (fst (add_all add ?e1 rs))"
    using u h w1 by (intro Cons.IH [of ?e1 "xs @ [r]"]) (simp_all add: load_after_write)
  then show ?case using ok e1 by (auto split: prod.splits)
qed

lemma app_add_all_succeeds:
  "fst (load_data e) = Inr (JArr xs) \<Longrightarrow> \<forall>d. write_ok e d \<Longrightarrow>
   list_all has_id (xs @ rs) \<Longrightarrow> unique_ids (xs @ rs) \<Longrightarrow>
   list_all is_success (fst (add_all app_add_employee e rs))"
  by (erule add_all_succeeds [rotated]) (simp_all add: app_add_fresh)

lemma cli_add_all_succeeds:
  "fst (load_data e) = Inr (JArr xs) \<Longrightarrow> \<forall>d. write_ok e d \<Longrightarrow>
   list_all has_id (xs @ rs) \<Longrightarrow> unique_ids (xs @ rs) \<Longrightarrow>
   list_all is_success (fst (add_all cli_add_employee e rs))"
  by (erule add_all_succeeds [rotated]) (simp_all add: cli_add_fresh)

text \<open>The POST route on a body that is an object.\<close>

lemma missing_field_JObj:
  "missing_field (JObj a) fs = Inr (find (\<lambda>f. \<not> field_ok (JObj a) f) fs)"
  by (induction fs) (auto simp: field_ok_def split: option.splits)

lemma find_Some_set: "find P xs = Some x \<Longrightarrow> x \<in> set xs"
  by (induction xs) (auto split: if_splits)

lemma route_missing_field:
  assumes "find (\<lambda>f. \<not> field_ok (JObj a) f) required_fields = Some f"
  shows "add_employee_route e (JObj a) =
           (Inr \<lparr>status = 400,
                 body = JObj [(''error'', JStr (''Missing required field: '' @ f))]\<rparr>, e)"
  by (simp add: add_employee_route_def missing_field_JObj assms)

lemma route_fresh_id:
  assumes "list_all (field_ok d) required_fields"
    and l: "fst (load_data e) = Inr (JArr xs)" and "list_all has_id xs"
    and "py_getitem d ''id'' = Inr x" and "\<not> list_ex (id_is x) xs"
  shows "add_employee_route e d =
     (case write_json e (Some 4) (JArr (xs @ [d])) of
        (Inr u, e1) \<Rightarrow>
          (Inr \<lparr>status = 201,
                body = JObj [(''message'', JStr ''Employee added successfully'')]\<rparr>, e1)
      | (Inl err, e1) \<Rightarrow>
          (Inr \<lparr>status = 400, body = JObj [(''error'', JStr ''Error saving employee'')]\<rparr>, e1))"
proof -
  from assms(4) obtain kvs where d: "d = JObj kvs" by (cases d) auto
  have m: "missing_field d required_fields = Inr None"
    using assms(1) unfolding d missing_field_JObj by (simp add: find_None_iff list_all_iff)
  have s: "dup_scan xs d = Inr False"
    using assms dup_scan_found [of xs d x] by simp
  show ?thesis
    by (simp add: add_employee_route_def m app_add_JArr [OF l] s split: prod.splits sum.splits)
qed

lemma same_id_iff:
  "same_id r s = (\<exists>a b. py_getitem r ''id'' = Inr a \<and> py_getitem s ''id'' = Inr b \<and> py_eq a b)"
  by (auto simp: same_id_def id_is_def split: sum.splits)


text \<open>Python's equality on these values is symmetric.\<close>

lemma list_all_keys:
  "list_all P (map fst c) = (\<forall>k. map_of c k \<noteq> None \<longrightarrow> P k)"
proof -
  have "(map_of c k \<noteq> None) = (k \<in> set (map fst c))" for k
    using map_of_eq_None_iff [of c k] by simp
  then show ?thesis by (auto simp: list_all_iff)
qed

lemma py_eq_JObj_iff:
  "py_eq (JObj a) (JObj b) =
     ((\<forall>k. (map_of a k = None) = (map_of b k = None)) \<and>
      (\<forall>k v w. map_of a k = Some v \<longrightarrow> map_of b k = Some w \<longrightarrow> py_eq v w))"
  unfolding py_eq.simps list_all_keys
  by (auto split: option.splits) (metis option.exhaust option.inject option.distinct(1))+

lemma py_eq_sym: "py_eq x y = py_eq y x"
proof (induction x arbitrary: y)
  case JNull
  then show ?case by (cases y) auto
next
  case (JBool b)
  then show ?case by (cases y) auto
next
  case (JInt i)
  then show ?case by (cases y) auto
next
  case (JFloat q)
  then show ?case by (cases y) auto
next
  case (JStr s)
  then show ?case by (cases y) auto
next
  case (JArr xs)
  show ?case
  proof (cases y)
    case (JArr ys)
    have sw: "py_eq u v = py_eq v u" if "(u, v) \<in> set (zip xs ys)" for u v
      using JArr.IH [of u v] set_zip_leftD [OF that] by simp
    have "(\<forall>p \<in> set (zip xs ys). py_eq (fst p) (snd p))
        = (\<forall>p \<in> set (zip ys xs). py_eq (fst p) (snd p))"
      unfolding zip_commute [of ys xs]
      using sw by fastforce
    then show ?thesis using JArr by (simp add: list_all_iff case_prod_beta eq_commute [of "length xs"])
  qed auto
next
  case (JObj a)
  show ?case
  proof (cases y)
    case (JObj b)
    have ih: "py_eq v w = py_eq w v" if "map_of a k = Some v" for k v w
    proof -
      from that have "(k, v) \<in> set a" by (rule map_of_SomeD)
      then show ?thesis using JObj.IH by fastforce
    qed
    show ?thesis unfolding JObj py_eq_JObj_iff using ih by (metis option.exhaust)
  qed auto
qed

lemma same_id_sym: "same_id r s = same_id s r"
  unfolding same_id_iff using py_eq_sym by blast

text \<open>What an add leaves in the file.\<close>

lemma app_add_file:
  "is_success (fst (app_add_employee e r))
     \<and> data_file (snd (app_add_employee e r)) = Some (Doc (Some 4) (JArr (records e @ [r])))
   \<or> \<not> is_success (fst (app_add_employee e r))
     \<and> (data_file (snd (app_add_employee e r)) = data_file e
        \<or> data_file (snd (app_add_employee e r)) = Some Malformed)"
proof (cases "is_success (fst (app_add_employee e r))")
  case True
  from app_add_successD [OF this] obtain xs where
    "fst (load_data e) = Inr (JArr xs)"
    "app_add_employee e r = (Inr (RPair True ''Employee added successfully''),
                            e\<lparr>data_file := Some (Doc (Some 4) (JArr (xs @ [r])))\<rparr>)"
    by blast
  then show ?thesis using True load_data_JArr_records [of e xs] by simp
next
  case False
  have s: "data_file e1 = data_file e \<or> data_file e1 = Some Malformed"
    if "app_save_data e d = (False, e1)" for d e1
    using that write_json_cases [of e d "Some 4"] by (auto simp: app_save_data_def)
  have "data_file (snd (app_add_employee e r)) = data_file e
        \<or> data_file (snd (app_add_employee e r)) = Some Malformed"
    using False load_data_cases [of e]
    by (cases "load_data e")
       (auto simp: app_add_employee_def split: sum.splits prod.splits if_splits dest: s)
  then show ?thesis using False by simp
qed

lemma cli_add_file:
  "is_success (fst (cli_add_employee e r))
     \<and> data_file (snd (cli_add_employee e r)) = Some (Doc (Some 4) (JArr (records e @ [r])))
   \<or> \<not> is_success (fst (cli_add_employee e r))
     \<and> (data_file (snd (cli_add_employee e r)) = data_file e
        \<or> data_file (snd (cli_add_employee e r)) = Some Malformed)"
proof (cases "is_success (fst (cli_add_employee e r))")
  case True
  from cli_add_successD [OF this] obtain xs where
    "fst (load_data e) = Inr (JArr xs)"
    "cli_add_employee e r = (Inr (RBool True),
                            e\<lparr>data_file := Some (Doc (Some 4) (JArr (xs @ [r])))\<rparr>)"
    by blast
  then show ?thesis using True load_data_JArr_records [of e xs] by simp
next
  case False
  have s: "data_file e1 = data_file e \<or> data_file e1 = Some Malformed"
    if "cli_save_data e d = (False, e1)" for d e1
    using that write_json_cases [of e d "Some 4"] by (auto simp: cli_save_data_def)
  have "data_file (snd (cli_add_employee e r)) = data_file e
        \<or> data_file (snd (cli_add_employee e r)) = Some Malformed"
    using False load_data_cases [of e]
    by (cases "load_data e")
       (auto simp: cli_add_employee_def split: sum.splits prod.splits if_splits dest: s)
  then show ?thesis using False by simp
qed

lemma records_Malformed: "data_file e = Some Malformed \<Longrightarrow> records e = []"
  by (simp add: records_def)

lemma records_cong: "data_file e' = data_file e \<Longrightarrow> records e' = records e"
  by (simp add: records_def)

lemma records_Doc: "data_file e = Some (Doc i (JArr xs)) \<Longrightarrow> records e = xs"
  by (simp add: records_def)

lemma has_id_get_details: "has_id (get_details emp)"
  by (simp add: has_id_def get_details_def)

lemma missing_field_ConsD:
  "missing_field d (f # fs) = Inr None \<Longrightarrow> \<exists>v. py_getitem d f = Inr v"
  by (simp split: sum.splits if_splits)

lemma validated_has_id:
  assumes "missing_field d required_fields = Inr None"
  shows "has_id d"
proof -
  from assms have "missing_field d (''id'' # [''name'', ''department'', ''salary'']) = Inr None"
    by (simp only: required_fields_def)
  then obtain v where "py_getitem d ''id'' = Inr v"
    by (blast dest: missing_field_ConsD)
  then show ?thesis by (simp add: has_id_def)
qed

lemma init_keeps_ids:
  "list_all has_id (records e) \<Longrightarrow> list_all has_id (records (snd (init e)))"
  using write_json_cases [of e "JArr []" None]
  by (cases "data_file e") (auto simp: init_def records_def)

lemma keeps_ids_after_add:
  assumes "list_all has_id (records e)" and "has_id r"
    and "is_success res \<and> data_file e' = Some (Doc (Some 4) (JArr (records e @ [r])))
       \<or> \<not> is_success res \<and> (data_file e' = data_file e \<or> data_file e' = Some Malformed)"
  shows "list_all has_id (records e')"
proof -
  from assms(3) have "records e' = records e @ [r] \<or> records e' = records e \<or> records e' = []"
    by (auto simp: records_Doc records_Malformed intro: records_cong)
  then show ?thesis using assms(1,2) by auto
qed

lemma cli_add_keeps_ids:
  assumes "list_all has_id (records e)"
  shows "list_all has_id (records (snd (cli_add_employee e (get_details emp))))"
  using assms has_id_get_details cli_add_file [of e "get_details emp"]
  by (rule keeps_ids_after_add)

lemma route_keeps_ids:
  assumes "list_all has_id (records e)"
  shows "list_all has_id (records (snd (add_employee_route e d)))"
proof (cases "missing_field d required_fields")
  case (Inl x)
  then show ?thesis using assms by (simp add: add_employee_route_def)
next
  case (Inr m)
  show ?thesis
  proof (cases m)
    case (Some f)
    then show ?thesis using assms Inr by (simp add: add_employee_route_def)
  next
    case None
    with Inr have d: "has_id d" by (simp add: validated_has_id)
    have s: "data_file (snd (add_employee_route e d)) = data_file (snd (app_add_employee e d))"
      using Inr None
      by (cases "app_add_employee e d")
         (auto simp: add_employee_route_def split: sum.splits add_result.splits)
    show ?thesis
      using assms d app_add_file [of e d] unfolding s [symmetric]
      by (rule keeps_ids_after_add)
  qed
qed





lemma one_line_append [simp]: "one_line (s @ t) = (one_line s \<and> one_line t)"
  by (auto simp: one_line_def)






lemma json_dump_empty_array: "json_dump indent (JArr []) = lit ''[]''"
  by (simp add: json_dump_def)

text \<open>What the encoder writes is a JSON text.\<close>

lemma is_ws_Nil [simp]: "is_ws []"
  by (simp add: is_ws_def)


















text \<open>The grammar is not empty talk: a file that was emptied holds no JSON text.\<close>

lemma json_value_not_Nil: "json_value t \<Longrightarrow> t \<noteq> []"
  by (cases t rule: json_value.cases) (auto simp: lit_def)

lemma json_text_not_Nil: "\<not> json_text []"
  by (auto elim!: json_text.cases dest: json_value_not_Nil)

lemmas sample_defs = no_file_def write_denied_def unreadable_file_def one_record_def
  disk_full_def
  emp_E1_def emp_E2_def emp_E1_again_def no_salary_def get_details_def

lemmas method_defs = write_json_def init_def load_data_def app_save_data_def cli_save_data_def
  app_add_employee_def cli_add_employee_def view_all_employees_def search_employee_def

section \<open>Adding a record whose id is in the store\<close>

text \<open>
  C1. On a store that holds an array of records with ids (the POST route and the
  interactive program store no other record: \<open>route_keeps_ids\<close>, \<open>cli_add_keeps_ids\<close>),
  an add of a record \<open>r\<close> whose id is the id of a stored record is rejected and writes
  nothing: \<^verbatim>\<open>app.py\<close>
  returns \<^verbatim>\<open>(False, "Employee ID already exists")\<close> and leaves the whole state as it
  was; the interactive program returns \<^verbatim>\<open>False\<close> and leaves the file as it was (it
  prints its message). In particular, after an add of \<open>r1\<close> that succeeded, an add
  of any \<open>r2\<close> with the id of \<open>r1\<close> is rejected in this way, and the records of
  the store with that id are \<open>r1\<close> alone.
\<close>

theorem duplicate_add_rejected:
  "(fst (load_data e) = Inr (JArr xs) \<and> list_all has_id xs
      \<and> py_getitem r ''id'' = Inr x \<and> list_ex (id_is x) xs
      \<longrightarrow> app_add_employee e r = (Inr (RPair False ''Employee ID already exists''), e)
        \<and> fst (cli_add_employee e r) = Inr (RBool False)
        \<and> data_file (snd (cli_add_employee e r)) = data_file e)
   \<and> (is_success (fst (app_add_employee e r1))
      \<and> py_getitem r1 ''id'' = Inr x \<and> py_getitem r2 ''id'' = Inr x
      \<longrightarrow> app_add_employee (snd (app_add_employee e r1)) r2
            = (Inr (RPair False ''Employee ID already exists''), snd (app_add_employee e r1))
        \<and> filter (id_is x) (records (snd (app_add_employee e r1))) = [r1])
   \<and> (is_success (fst (cli_add_employee e r1))
      \<and> py_getitem r1 ''id'' = Inr x \<and> py_getitem r2 ''id'' = Inr x
      \<longrightarrow> fst (cli_add_employee (snd (cli_add_employee e r1)) r2) = Inr (RBool False)
        \<and> data_file (snd (cli_add_employee (snd (cli_add_employee e r1)) r2))
            = data_file (snd (cli_add_employee e r1))
        \<and> filter (id_is x) (records (snd (cli_add_employee e r1))) = [r1])"
proof (intro conjI impI)
  assume a: "fst (load_data e) = Inr (JArr xs) \<and> list_all has_id xs
      \<and> py_getitem r ''id'' = Inr x \<and> list_ex (id_is x) xs"
  then have l: "fst (load_data e) = Inr (JArr xs)" and d: "dup_scan xs r = Inr True"
    using dup_scan_found [of xs r x] by simp_all
  show "app_add_employee e r = (Inr (RPair False ''Employee ID already exists''), e)"
    by (simp add: app_add_JArr [OF l] d)
  show "fst (cli_add_employee e r) = Inr (RBool False)"
    by (simp add: cli_add_JArr [OF l] d)
  show "data_file (snd (cli_add_employee e r)) = data_file e"
    by (simp add: cli_add_JArr [OF l] d)
next
  assume a: "is_success (fst (app_add_employee e r1))
      \<and> py_getitem r1 ''id'' = Inr x \<and> py_getitem r2 ''id'' = Inr x"
  then obtain xs where xs: "dup_scan xs r1 = Inr False"
      "app_add_employee e r1 = (Inr (RPair True ''Employee added successfully''),
                            e\<lparr>data_file := Some (Doc (Some 4) (JArr (xs @ [r1])))\<rparr>)"
    using app_add_successD by blast
  let ?e1 = "e\<lparr>data_file := Some (Doc (Some 4) (JArr (xs @ [r1])))\<rparr>"
  have l: "fst (load_data ?e1) = Inr (JArr (xs @ [r1]))" by (simp add: load_after_write)
  have d: "dup_scan (xs @ [r1]) r2 = Inr True"
    using scan_no_match [OF xs(1)] a by (intro dup_scan_append [of xs x]) auto
  show "app_add_employee (snd (app_add_employee e r1)) r2
            = (Inr (RPair False ''Employee ID already exists''), snd (app_add_employee e r1))"
    by (simp add: xs(2) app_add_JArr [OF l] d)
  show "filter (id_is x) (records (snd (app_add_employee e r1))) = [r1]"
    unfolding xs(2) snd_conv records_after_write
    using scan_no_match [OF xs(1)] a by (intro filter_id_is_append) auto
next
  assume a: "is_success (fst (cli_add_employee e r1))
      \<and> py_getitem r1 ''id'' = Inr x \<and> py_getitem r2 ''id'' = Inr x"
  then obtain xs where xs: "dup_scan xs r1 = Inr False"
      "cli_add_employee e r1 = (Inr (RBool True),
                            e\<lparr>data_file := Some (Doc (Some 4) (JArr (xs @ [r1])))\<rparr>)"
    using cli_add_successD by blast
  let ?e1 = "e\<lparr>data_file := Some (Doc (Some 4) (JArr (xs @ [r1])))\<rparr>"
  have l: "fst (load_data ?e1) = Inr (JArr (xs @ [r1]))" by (simp add: load_after_write)
  have d: "dup_scan (xs @ [r1]) r2 = Inr True"
    using scan_no_match [OF xs(1)] a by (intro dup_scan_append [of xs x]) auto
  show "fst (cli_add_employee (snd (cli_add_employee e r1)) r2) = Inr (RBool False)"
    by (simp add: xs(2) cli_add_JArr [OF l] d)
  show "data_file (snd (cli_add_employee (snd (cli_add_employee e r1)) r2))
            = data_file (snd (cli_add_employee e r1))"
    by (simp add: xs(2) cli_add_JArr [OF l] d)
  show "filter (id_is x) (records (snd (cli_add_employee e r1))) = [r1]"
    unfolding xs(2) snd_conv records_after_write
    using scan_no_match [OF xs(1)] a by (intro filter_id_is_append) auto
qed

theorem duplicate_add_rejected_witness:
  "fst (load_data one_record) = Inr (JArr [emp_E1]) \<and> list_all has_id [emp_E1]
   \<and> py_getitem emp_E1_again ''id'' = Inr (JStr ''E1'') \<and> list_ex (id_is (JStr ''E1'')) [emp_E1]
   \<and> app_add_employee one_record emp_E1_again
       = (Inr (RPair False ''Employee ID already exists''), one_record)
   \<and> fst (cli_add_employee one_record emp_E1_again) = Inr (RBool False)
   \<and> is_success (fst (app_add_employee no_file emp_E1))
   \<and> is_success (fst (cli_add_employee no_file emp_E1))
   \<and> py_getitem emp_E1 ''id'' = Inr (JStr ''E1'')
   \<and> app_add_employee (snd (app_add_employee no_file emp_E1)) emp_E1_again
       = (Inr (RPair False ''Employee ID already exists''), snd (app_add_employee no_file emp_E1))
   \<and> filter (id_is (JStr ''E1'')) (records (snd (app_add_employee no_file emp_E1))) = [emp_E1]
   \<and> fst (cli_add_employee (snd (cli_add_employee no_file emp_E1)) emp_E1_again) = Inr (RBool False)
   \<and> filter (id_is (JStr ''E1'')) (records (snd (cli_add_employee no_file emp_E1))) = [emp_E1]"
proof -
  have h1: "fst (load_data one_record) = Inr (JArr [emp_E1])"
    by (simp add: one_record_def load_data_def)
  have h2: "list_all has_id [emp_E1]"
    by (simp add: has_id_def sample_defs)
  have h3: "py_getitem emp_E1_again ''id'' = Inr (JStr ''E1'')"
    by (simp add: sample_defs)
  have h4: "list_ex (id_is (JStr ''E1'')) [emp_E1]"
    by (simp add: id_is_def sample_defs)
  have h5: "is_success (fst (app_add_employee no_file emp_E1))"
    by (simp add: sample_defs method_defs)
  have h6: "is_success (fst (cli_add_employee no_file emp_E1))"
    by (simp add: sample_defs method_defs)
  have h7: "py_getitem emp_E1 ''id'' = Inr (JStr ''E1'')"
    by (simp add: sample_defs)
  show ?thesis
    using duplicate_add_rejected [of one_record "[emp_E1]" emp_E1_again "JStr ''E1''"]
      duplicate_add_rejected [of no_file "[]" emp_E1_again "JStr ''E1''" emp_E1 emp_E1_again]
      h1 h2 h3 h4 h5 h6 h7
    by simp
qed

section \<open>Round trip of add and search\<close>

text \<open>
  C2. In either program, after an add of a record \<open>r\<close> that succeeded, searching for
  the id of \<open>r\<close> returns \<open>r\<close> itself, and leaves the store as the add left it. (An add
  succeeds only when the id of \<open>r\<close> is not in the store.)
\<close>

theorem add_then_search_round_trip:
  "(is_success (fst (app_add_employee e r)) \<and> py_getitem r ''id'' = Inr x
      \<longrightarrow> search_employee (snd (app_add_employee e r)) x
            = (Inr (Some r), snd (app_add_employee e r)))
   \<and> (is_success (fst (cli_add_employee e r)) \<and> py_getitem r ''id'' = Inr x
      \<longrightarrow> search_employee (snd (cli_add_employee e r)) x
            = (Inr (Some r), snd (cli_add_employee e r)))"
proof (intro conjI impI)
  assume a: "is_success (fst (app_add_employee e r)) \<and> py_getitem r ''id'' = Inr x"
  then obtain xs where xs: "dup_scan xs r = Inr False"
      "app_add_employee e r = (Inr (RPair True ''Employee added successfully''),
                            e\<lparr>data_file := Some (Doc (Some 4) (JArr (xs @ [r])))\<rparr>)"
    using app_add_successD by blast
  have "find_scan (xs @ [r]) x = Inr (Some r)"
    using scan_no_match [OF xs(1)] a by (intro find_scan_append) auto
  then show "search_employee (snd (app_add_employee e r)) x
            = (Inr (Some r), snd (app_add_employee e r))"
    by (simp add: xs(2) search_JArr load_after_write)
next
  assume a: "is_success (fst (cli_add_employee e r)) \<and> py_getitem r ''id'' = Inr x"
  then obtain xs where xs: "dup_scan xs r = Inr False"
      "cli_add_employee e r = (Inr (RBool True),
                            e\<lparr>data_file := Some (Doc (Some 4) (JArr (xs @ [r])))\<rparr>)"
    using cli_add_successD by blast
  have "find_scan (xs @ [r]) x = Inr (Some r)"
    using scan_no_match [OF xs(1)] a by (intro find_scan_append) auto
  then show "search_employee (snd (cli_add_employee e r)) x
            = (Inr (Some r), snd (cli_add_employee e r))"
    by (simp add: xs(2) search_JArr load_after_write)
qed

theorem add_then_search_round_trip_witness:
  "is_success (fst (app_add_employee no_file emp_E1))
   \<and> is_success (fst (cli_add_employee no_file emp_E1))
   \<and> py_getitem emp_E1 ''id'' = Inr (JStr ''E1'')
   \<and> search_employee (snd (app_add_employee no_file emp_E1)) (JStr ''E1'')
       = (Inr (Some emp_E1), snd (app_add_employee no_file emp_E1))
   \<and> search_employee (snd (cli_add_employee no_file emp_E1)) (JStr ''E1'')
       = (Inr (Some emp_E1), snd (cli_add_employee no_file emp_E1))"
proof -
  have h1: "is_success (fst (app_add_employee no_file emp_E1))"
    by (simp add: sample_defs method_defs)
  have h2: "is_success (fst (cli_add_employee no_file emp_E1))"
    by (simp add: sample_defs method_defs)
  have h3: "py_getitem emp_E1 ''id'' = Inr (JStr ''E1'')"
    by (simp add: sample_defs)
  show ?thesis
    using add_then_search_round_trip [of no_file emp_E1 "JStr ''E1''"] h1 h2 h3 by blast
qed

section \<open>Listing after a run of adds\<close>

text \<open>
  C3. When the store holds the array \<open>xs\<close> (the empty one at the start: no file, or a
  file with \<^verbatim>\<open>[]\<close>) and a caller adds the records \<open>rs\<close> one after the other, each
  add succeeding, \<^verbatim>\<open>view_all_employees\<close> then returns \<open>xs\<close> followed by \<open>rs\<close>, in the
  order of the adds: from the empty store, exactly \<open>rs\<close>.
\<close>

theorem view_all_after_adds:
  "(fst (load_data e) = Inr (JArr xs)
      \<and> list_all is_success (fst (add_all app_add_employee e rs))
      \<longrightarrow> view_all_employees (snd (add_all app_add_employee e rs))
            = (Inr (JArr (xs @ rs)), snd (add_all app_add_employee e rs)))
   \<and> (fst (load_data e) = Inr (JArr xs)
      \<and> list_all is_success (fst (add_all cli_add_employee e rs))
      \<longrightarrow> view_all_employees (snd (add_all cli_add_employee e rs))
            = (Inr (JArr (xs @ rs)), snd (add_all cli_add_employee e rs)))"
proof (intro conjI impI)
  assume a: "fst (load_data e) = Inr (JArr xs)
      \<and> list_all is_success (fst (add_all app_add_employee e rs))"
  have "load_data (snd (add_all app_add_employee e rs))
      = (Inr (JArr (xs @ rs)), snd (add_all app_add_employee e rs))"
  proof (rule add_all_appends)
    fix e r assume "is_success (fst (app_add_employee e r))"
    from app_add_successD [OF this]
    show "\<exists>xs. fst (load_data e) = Inr (JArr xs)
          \<and> snd (app_add_employee e r) = e\<lparr>data_file := Some (Doc (Some 4) (JArr (xs @ [r])))\<rparr>"
      by auto
  qed (use a in simp_all)
  then show "view_all_employees (snd (add_all app_add_employee e rs))
            = (Inr (JArr (xs @ rs)), snd (add_all app_add_employee e rs))"
    by (simp add: view_all_employees_def)
next
  assume a: "fst (load_data e) = Inr (JArr xs)
      \<and> list_all is_success (fst (add_all cli_add_employee e rs))"
  have "load_data (snd (add_all cli_add_employee e rs))
      = (Inr (JArr (xs @ rs)), snd (add_all cli_add_employee e rs))"
  proof (rule add_all_appends)
    fix e r assume "is_success (fst (cli_add_employee e r))"
    from cli_add_successD [OF this]
    show "\<exists>xs. fst (load_data e) = Inr (JArr xs)
          \<and> snd (cli_add_employee e r) = e\<lparr>data_file := Some (Doc (Some 4) (JArr (xs @ [r])))\<rparr>"
      by auto
  qed (use a in simp_all)
  then show "view_all_employees (snd (add_all cli_add_employee e rs))
            = (Inr (JArr (xs @ rs)), snd (add_all cli_add_employee e rs))"
    by (simp add: view_all_employees_def)
qed

theorem view_all_after_adds_witness:
  "fst (load_data no_file) = Inr (JArr [])
   \<and> list_all is_success (fst (add_all app_add_employee no_file [emp_E1, emp_E2]))
   \<and> list_all is_success (fst (add_all cli_add_employee no_file [emp_E1, emp_E2]))
   \<and> fst (view_all_employees (snd (add_all app_add_employee no_file [emp_E1, emp_E2])))
       = Inr (JArr [emp_E1, emp_E2])
   \<and> fst (view_all_employees (snd (add_all cli_add_employee no_file [emp_E1, emp_E2])))
       = Inr (JArr [emp_E1, emp_E2])"
proof -
  have h1: "fst (load_data no_file) = Inr (JArr [])"
    by (simp add: sample_defs load_data_def)
  have h2: "list_all is_success (fst (add_all app_add_employee no_file [emp_E1, emp_E2]))"
    by (simp add: sample_defs method_defs)
  have h3: "list_all is_success (fst (add_all cli_add_employee no_file [emp_E1, emp_E2]))"
    by (simp add: sample_defs method_defs)
  show ?thesis
    using view_all_after_adds [of no_file "[]" "[emp_E1, emp_E2]"] h1 h2 h3
    by simp
qed

section \<open>At most one record per id\<close>

text \<open>
  C4. That no stored record has the id of an earlier one (that no two stored records
  have the same id: the test is symmetric, \<open>same_id_sym\<close>) is an invariant of the
  store: from a state in which it holds, \<^verbatim>\<open>__init__\<close>, \<^verbatim>\<open>add_employee\<close> of either
  program, \<^verbatim>\<open>search_employee\<close> and \<^verbatim>\<open>view_all_employees\<close> each lead to a state in which
  it holds, whatever their arguments and whether they return or raise.
\<close>

theorem unique_ids_invariant:
  "store_inv e \<longrightarrow>
     store_inv (snd (init e))
   \<and> store_inv (snd (app_add_employee e r))
   \<and> store_inv (snd (cli_add_employee e r))
   \<and> store_inv (snd (search_employee e k))
   \<and> store_inv (snd (view_all_employees e))"
proof (intro impI conjI)
  assume inv: "store_inv e"
  show "store_inv (snd (init e))"
    using inv write_json_cases [of e "JArr []" None]
    by (cases "data_file e") (auto simp: init_def store_inv_def records_def)
  show "store_inv (snd (search_employee e k))"
    using inv load_data_cases [of e]
    by (auto simp: search_employee_def split: sum.splits)
  show "store_inv (snd (view_all_employees e))"
    using inv load_data_cases [of e] by (auto simp: view_all_employees_def)
  show "store_inv (snd (app_add_employee e r))"
  proof (cases "is_success (fst (app_add_employee e r))")
    case True
    then obtain xs where xs: "fst (load_data e) = Inr (JArr xs)" "dup_scan xs r = Inr False"
      "app_add_employee e r = (Inr (RPair True ''Employee added successfully''),
                            e\<lparr>data_file := Some (Doc (Some 4) (JArr (xs @ [r])))\<rparr>)"
      using app_add_successD by blast
    have "\<not> same_id s r" if "s \<in> set xs" for s
      using dup_scan_FalseD [OF xs(2) that] by (auto simp: same_id_def id_is_def)
    then have "\<not> list_ex (\<lambda>s. same_id s r) xs" by (simp add: list_ex_iff)
    moreover have "unique_ids xs"
      using inv load_data_JArr_records [OF xs(1)] by (simp add: store_inv_def)
    ultimately show ?thesis
      by (simp add: xs(3) store_inv_def records_after_write unique_ids_append)
  next
    case False
    then have "data_file (snd (app_add_employee e r)) = data_file e
        \<or> data_file (snd (app_add_employee e r)) = Some Malformed"
      using app_add_file [of e r] by blast
    then show ?thesis using inv by (auto simp: store_inv_def records_def)
  qed
  show "store_inv (snd (cli_add_employee e r))"
  proof (cases "is_success (fst (cli_add_employee e r))")
    case True
    then obtain xs where xs: "fst (load_data e) = Inr (JArr xs)" "dup_scan xs r = Inr False"
      "cli_add_employee e r = (Inr (RBool True),
                            e\<lparr>data_file := Some (Doc (Some 4) (JArr (xs @ [r])))\<rparr>)"
      using cli_add_successD by blast
    have "\<not> same_id s r" if "s \<in> set xs" for s
      using dup_scan_FalseD [OF xs(2) that] by (auto simp: same_id_def id_is_def)
    then have "\<not> list_ex (\<lambda>s. same_id s r) xs" by (simp add: list_ex_iff)
    moreover have "unique_ids xs"
      using inv load_data_JArr_records [OF xs(1)] by (simp add: store_inv_def)
    ultimately show ?thesis
      by (simp add: xs(3) store_inv_def records_after_write unique_ids_append)
  next
    case False
    then have "data_file (snd (cli_add_employee e r)) = data_file e
        \<or> data_file (snd (cli_add_employee e r)) = Some Malformed"
      using cli_add_file [of e r] by blast
    then show ?thesis using inv by (auto simp: store_inv_def records_def)
  qed
qed

theorem unique_ids_invariant_witness:
  "store_inv one_record
   \<and> store_inv (snd (init one_record))
   \<and> store_inv (snd (app_add_employee one_record emp_E2))
   \<and> store_inv (snd (cli_add_employee one_record emp_E1_again))
   \<and> store_inv (snd (search_employee one_record (JStr ''E1'')))
   \<and> store_inv (snd (view_all_employees one_record))
   \<and> records (snd (app_add_employee one_record emp_E2)) = [emp_E1, emp_E2]"
proof -
  have h: "store_inv one_record"
    by (simp add: one_record_def store_inv_def records_def)
  have r: "records (snd (app_add_employee one_record emp_E2)) = [emp_E1, emp_E2]"
    by (simp add: one_record_def sample_defs method_defs records_def)
  show ?thesis
    using unique_ids_invariant [of one_record emp_E2 "JStr ''E1''"]
      unique_ids_invariant [of one_record emp_E1_again "JStr ''E1''"] h r
    by simp
qed

section \<open>Initialisation\<close>

text \<open>
  C9 (as stated, refuted). When nothing is at the path and the file cannot be opened
  for writing, \<^verbatim>\<open>__init__\<close> raises the error of \<^verbatim>\<open>open\<close> and creates no file.
\<close>

theorem init_raises_when_open_refused:
  "data_file write_denied = None
   \<and> init write_denied = (Inl OSError, write_denied)
   \<and> data_file (snd (init write_denied)) = None"
  by (simp add: sample_defs method_defs)

text \<open>
  C9 (amended). When nothing is at the path and the file can be opened and written,
  \<^verbatim>\<open>__init__\<close> returns, the file then holds the text \<^verbatim>\<open>[]\<close>, the empty array, and
  \<^verbatim>\<open>view_all_employees\<close> right after returns the empty list. When the file cannot be
  opened, \<^verbatim>\<open>__init__\<close> raises and creates no file; when the write fails after the file
  was opened, it raises and leaves a file that holds no JSON. When a file is there,
  whatever its content, \<^verbatim>\<open>__init__\<close> returns and changes nothing.
\<close>

theorem init_creates_empty_store:
  "(data_file e = None \<and> write_ok e (JArr [])
      \<longrightarrow> fst (init e) = Inr ()
        \<and> data_file (snd (init e)) = Some (Doc None (JArr []))
        \<and> file_text (snd (init e)) = Some (lit ''[]'')
        \<and> view_all_employees (snd (init e)) = (Inr (JArr []), snd (init e)))
   \<and> (data_file e = None \<and> open_fault e = Some msg \<longrightarrow> init e = (Inl OSError, e))
   \<and> (data_file e = None \<and> open_fault e = None \<and> dump_fault e (JArr []) = Some err
      \<longrightarrow> init e = (Inl (fst err), e\<lparr>data_file := Some Malformed\<rparr>))
   \<and> (data_file e = Some c \<longrightarrow> init e = (Inr (), e))"
  by (simp add: init_def write_json_def write_ok_def view_all_employees_def load_data_def
      file_text_def json_dump_empty_array)

theorem init_creates_empty_store_witness:
  "data_file no_file = None \<and> write_ok no_file (JArr [])
   \<and> fst (init no_file) = Inr ()
   \<and> data_file (snd (init no_file)) = Some (Doc None (JArr []))
   \<and> view_all_employees (snd (init no_file)) = (Inr (JArr []), snd (init no_file))
   \<and> data_file write_denied = None \<and> open_fault write_denied = Some ''Permission denied''
   \<and> init write_denied = (Inl OSError, write_denied)
   \<and> data_file (disk_full\<lparr>data_file := None\<rparr>) = None
   \<and> open_fault (disk_full\<lparr>data_file := None\<rparr>) = None
   \<and> dump_fault (disk_full\<lparr>data_file := None\<rparr>) (JArr [])
       = Some (OSError, ''No space left on device'')
   \<and> init (disk_full\<lparr>data_file := None\<rparr>) = (Inl OSError, disk_full\<lparr>data_file := Some Malformed\<rparr>)
   \<and> data_file unreadable_file = Some Unreadable
   \<and> init unreadable_file = (Inr (), unreadable_file)"
proof -
  have h1: "data_file no_file = None \<and> write_ok no_file (JArr [])"
    by (simp add: sample_defs write_ok_def)
  have h2: "data_file write_denied = None \<and> open_fault write_denied = Some ''Permission denied''"
    by (simp add: sample_defs)
  have h3: "data_file (disk_full\<lparr>data_file := None\<rparr>) = None
      \<and> open_fault (disk_full\<lparr>data_file := None\<rparr>) = None
      \<and> dump_fault (disk_full\<lparr>data_file := None\<rparr>) (JArr [])
          = Some (OSError, ''No space left on device'')"
    by (simp add: sample_defs)
  have h4: "data_file unreadable_file = Some Unreadable"
    by (simp add: sample_defs)
  show ?thesis
    using init_creates_empty_store [of no_file]
      init_creates_empty_store [of write_denied "''Permission denied''"]
      init_creates_empty_store [of "disk_full\<lparr>data_file := None\<rparr>" _
        "(OSError, ''No space left on device'')"]
      init_creates_empty_store [of unreadable_file _ _ Unreadable]
      h1 h2 h3 h4
    by simp
qed

section \<open>Reading leaves the store alone\<close>

text \<open>
  C10. \<^verbatim>\<open>search_employee\<close> and \<^verbatim>\<open>view_all_employees\<close>, and the two GET routes built on
  them, return the state of the world they were given: the file is as it was before,
  whether they return or raise.
\<close>

theorem reads_leave_store:
  "snd (search_employee e k) = e \<and> snd (view_all_employees e) = e
   \<and> snd (get_employee e emp_id) = e \<and> snd (get_employees e) = e"
proof -
  have s: "snd (search_employee e k) = e" for k
    using load_data_cases [of e] by (auto simp: search_employee_def split: sum.splits)
  have v: "snd (view_all_employees e) = e"
    using load_data_cases [of e] by (auto simp: view_all_employees_def)
  have "snd (get_employee e emp_id) = e"
    using s [of "JStr emp_id"]
    by (cases "search_employee e (JStr emp_id)")
       (auto simp: get_employee_def split: sum.splits option.splits)
  moreover have "snd (get_employees e) = e"
    using v by (cases "view_all_employees e") (auto simp: get_employees_def split: sum.splits)
  ultimately show ?thesis using s v by simp
qed

section \<open>Loading\<close>

text \<open>
  C5 (failing input). On a file that is there but cannot be read, \<^verbatim>\<open>_load_data\<close> does
  not return the empty list, as its docstring says it does on a file error and as
  the claim states: it raises the error. Only \<^verbatim>\<open>FileNotFoundError\<close> and
  \<^verbatim>\<open>JSONDecodeError\<close> are caught, where \<^verbatim>\<open>_save_data\<close> catches every exception.
\<close>

theorem load_raises_on_unreadable_file:
  "data_file unreadable_file = Some Unreadable
   \<and> load_data unreadable_file = (Inl OSError, unreadable_file)
   \<and> fst (view_all_employees unreadable_file) = Inl OSError
   \<and> fst (search_employee unreadable_file (JStr ''E1'')) = Inl OSError
   \<and> fst (app_add_employee unreadable_file emp_E1) = Inl OSError"
  by (simp add: sample_defs method_defs)

section \<open>What an add returns\<close>

text \<open>
  C6 (as stated, refuted). In the interactive program \<^verbatim>\<open>add_employee\<close> returns a bare
  boolean, not a pair of flag and message: \<^verbatim>\<open>True\<close> for the first record of the
  example, and \<^verbatim>\<open>False\<close> for a second record with its id, the message being printed.
\<close>

theorem cli_add_returns_bare_flag:
  "fst (cli_add_employee no_file emp_E1) = Inr (RBool True)
   \<and> \<not> returns_pair (fst (cli_add_employee no_file emp_E1))
   \<and> fst (cli_add_employee one_record emp_E1_again) = Inr (RBool False)
   \<and> \<not> returns_pair (fst (cli_add_employee one_record emp_E1_again))
   \<and> console (snd (cli_add_employee one_record emp_E1_again))
       = [''Error: An employee with this ID already exists.'']"
  by (simp add: sample_defs method_defs)

text \<open>
  C6 (amended). When \<^verbatim>\<open>add_employee\<close> of \<^verbatim>\<open>app.py\<close> returns, it returns a pair of a flag
  and one of three messages, the flag true with the message of success only, and it
  prints nothing. When \<^verbatim>\<open>add_employee\<close> of the interactive program returns, it returns
  a boolean alone and prints its messages instead: nothing with \<^verbatim>\<open>True\<close>; with
  \<^verbatim>\<open>False\<close> one line, that the id exists already or that the data could not be saved
  and why. On the same state and record the two return the same flag. On a store
  that holds an array of records with ids, and a record with an id, both do return.
\<close>

theorem add_result_shapes:
  "(fst (app_add_employee e r) = Inr res \<longrightarrow>
        res = RPair True ''Employee added successfully''
      \<or> res = RPair False ''Employee ID already exists''
      \<or> res = RPair False ''Error saving employee'')
   \<and> console (snd (app_add_employee e r)) = console e
   \<and> (fst (cli_add_employee e r) = Inr res \<longrightarrow>
        res = RBool True \<and> console (snd (cli_add_employee e r)) = console e
      \<or> res = RBool False
        \<and> fst (app_add_employee e r) = Inr (RPair False ''Employee ID already exists'')
        \<and> console (snd (cli_add_employee e r))
            = console e @ [''Error: An employee with this ID already exists.'']
      \<or> res = RBool False
        \<and> fst (app_add_employee e r) = Inr (RPair False ''Error saving employee'')
        \<and> (\<exists>msg. console (snd (cli_add_employee e r))
                    = console e @ [''Error saving data: '' @ msg]))
   \<and> (fst (app_add_employee e r) = Inr (RPair b m) \<longrightarrow>
        fst (cli_add_employee e r) = Inr (RBool b))
   \<and> (fst (load_data e) = Inr (JArr xs) \<and> list_all has_id xs \<and> has_id r \<longrightarrow>
        returns_pair (fst (app_add_employee e r))
      \<and> (\<exists>b. fst (cli_add_employee e r) = Inr (RBool b)))"
proof -
  have a1: "res = RPair True ''Employee added successfully''
      \<or> res = RPair False ''Employee ID already exists''
      \<or> res = RPair False ''Error saving employee''"
    if "fst (app_add_employee e r) = Inr res"
    using that load_data_cases [of e]
    by (auto simp: app_add_employee_def app_save_data_def
        split: sum.splits prod.splits if_splits)
  have ws: "console e1 = console e" if "write_json e (Some 4) d = (w, e1)" for d w e1
    using that write_json_cases [of e d "Some 4"] by auto
  have a2: "console (snd (app_add_employee e r)) = console e"
    using load_data_cases [of e]
    by (auto simp: app_add_employee_def app_save_data_def
        split: sum.splits prod.splits if_splits dest: ws)
  have both: "(\<exists>x. fst (app_add_employee e r) = Inl x \<and> fst (cli_add_employee e r) = Inl x)
      \<or> fst (app_add_employee e r) = Inr (RPair True ''Employee added successfully'')
        \<and> fst (cli_add_employee e r) = Inr (RBool True)
        \<and> console (snd (cli_add_employee e r)) = console e
      \<or> fst (app_add_employee e r) = Inr (RPair False ''Employee ID already exists'')
        \<and> fst (cli_add_employee e r) = Inr (RBool False)
        \<and> console (snd (cli_add_employee e r))
            = console e @ [''Error: An employee with this ID already exists.'']
      \<or> fst (app_add_employee e r) = Inr (RPair False ''Error saving employee'')
        \<and> fst (cli_add_employee e r) = Inr (RBool False)
        \<and> (\<exists>msg. console (snd (cli_add_employee e r))
                    = console e @ [''Error saving data: '' @ msg])"
  proof -
    consider (fails) "load_data e = (Inl OSError, e)"
      | (loads) v where "load_data e = (Inr v, e)"
      using load_data_cases [of e] by blast
    then show ?thesis
    proof cases
      case fails
      then show ?thesis by (simp add: app_add_employee_def cli_add_employee_def)
    next
      case (loads v)
      show ?thesis
      proof (cases "py_iter v")
        case (Inl x)
        then show ?thesis using loads by (simp add: app_add_employee_def cli_add_employee_def)
      next
        case items: (Inr items)
        show ?thesis
        proof (cases "dup_scan items r")
          case (Inl x)
          then show ?thesis
            using loads items by (simp add: app_add_employee_def cli_add_employee_def)
        next
          case found: (Inr found)
          show ?thesis
          proof (cases found)
            case True
            then show ?thesis
              using loads items found by (simp add: app_add_employee_def cli_add_employee_def)
          next
            case False
            show ?thesis
            proof (cases "py_append v r")
              case (Inl x)
              then show ?thesis
                using loads items found False
                by (simp add: app_add_employee_def cli_add_employee_def)
            next
              case (Inr appended)
              from write_json_cases [of e appended "Some 4"]
              show ?thesis
                using loads items found False Inr
                by (auto simp: app_add_employee_def cli_add_employee_def
                    app_save_data_def cli_save_data_def)
            qed
          qed
        qed
      qed
    qed
  qed
  have a3: "res = RBool True \<and> console (snd (cli_add_employee e r)) = console e
      \<or> res = RBool False
        \<and> fst (app_add_employee e r) = Inr (RPair False ''Employee ID already exists'')
        \<and> console (snd (cli_add_employee e r))
            = console e @ [''Error: An employee with this ID already exists.'']
      \<or> res = RBool False
        \<and> fst (app_add_employee e r) = Inr (RPair False ''Error saving employee'')
        \<and> (\<exists>msg. console (snd (cli_add_employee e r))
                    = console e @ [''Error saving data: '' @ msg])"
    if "fst (cli_add_employee e r) = Inr res"
    using that both by auto
  have a4: "fst (cli_add_employee e r) = Inr (RBool b)"
    if "fst (app_add_employee e r) = Inr (RPair b m)"
    using that both by auto
  have a5: "returns_pair (fst (app_add_employee e r))
      \<and> (\<exists>b. fst (cli_add_employee e r) = Inr (RBool b))"
    if a: "fst (load_data e) = Inr (JArr xs) \<and> list_all has_id xs \<and> has_id r"
  proof -
    from a obtain x where x: "py_getitem r ''id'' = Inr x"
      by (auto simp: has_id_def split: sum.splits)
    from a have l: "fst (load_data e) = Inr (JArr xs)" by simp
    have d: "dup_scan xs r = Inr (list_ex (id_is x) xs)"
      using a x by (intro dup_scan_found) simp_all
    have "\<exists>y. fst (app_add_employee e r) = Inr y"
      by (cases "write_json e (Some 4) (JArr (xs @ [r]))")
         (auto simp: app_add_JArr [OF l] d split: sum.splits)
    then show ?thesis using a1 both by auto
  qed
  from a1 a2 a3 a4 a5 show ?thesis by blast
qed

theorem add_result_shapes_witness:
  "fst (app_add_employee one_record emp_E1_again) = Inr (RPair False ''Employee ID already exists'')
   \<and> fst (cli_add_employee one_record emp_E1_again) = Inr (RBool False)
   \<and> console (snd (cli_add_employee one_record emp_E1_again))
       = console one_record @ [''Error: An employee with this ID already exists.'']
   \<and> fst (app_add_employee disk_full emp_E2) = Inr (RPair False ''Error saving employee'')
   \<and> fst (cli_add_employee disk_full emp_E2) = Inr (RBool False)
   \<and> console (snd (cli_add_employee disk_full emp_E2))
       = [''Error saving data: No space left on device'']
   \<and> fst (cli_add_employee one_record emp_E2) = Inr (RBool True)
   \<and> console (snd (cli_add_employee one_record emp_E2)) = console one_record
   \<and> fst (load_data one_record) = Inr (JArr [emp_E1]) \<and> list_all has_id [emp_E1] \<and> has_id emp_E2
   \<and> returns_pair (fst (app_add_employee one_record emp_E2))"
proof -
  have h1: "fst (app_add_employee one_record emp_E1_again)
      = Inr (RPair False ''Employee ID already exists'')"
    by (simp add: sample_defs method_defs)
  have h2: "fst (cli_add_employee one_record emp_E2) = Inr (RBool True)"
    by (simp add: sample_defs method_defs)
  have h3: "fst (load_data one_record) = Inr (JArr [emp_E1])"
    by (simp add: one_record_def load_data_def)
  have h4: "list_all has_id [emp_E1] \<and> has_id emp_E2"
    by (simp add: has_id_def sample_defs)
  have h5: "fst (app_add_employee disk_full emp_E2) = Inr (RPair False ''Error saving employee'')"
    by (simp add: sample_defs method_defs)
  have h6: "console (snd (cli_add_employee disk_full emp_E2))
       = [''Error saving data: No space left on device'']"
    by (simp add: sample_defs method_defs)
  show ?thesis
    using add_result_shapes [of one_record emp_E2 "RBool True" _ _ "[emp_E1]"]
      add_result_shapes [of one_record emp_E1_again "RBool False" False
        "''Employee ID already exists''"]
      add_result_shapes [of disk_full emp_E2 "RBool False" False "''Error saving employee''"]
      h1 h2 h3 h4 h5 h6
    by simp
qed

section \<open>The format written by save\<close>




section \<open>The status of a POST\<close>

text \<open>
  C8 (as stated, refuted). A body with all four fields present and truthy and an id
  that is not in the store is answered with 400, not 201, when the file cannot be
  written.
\<close>

theorem post_save_failure_is_400:
  "list_all (field_ok emp_E1) required_fields
   \<and> fst (load_data write_denied) = Inr (JArr [])
   \<and> add_employee_route write_denied emp_E1
       = (Inr \<lparr>status = 400, body = JObj [(''error'', JStr ''Error saving employee'')]\<rparr>,
          write_denied)"
  by (simp add: sample_defs method_defs add_employee_route_def required_fields_def field_ok_def)

text \<open>
  C8 (amended). A body that is an object in which one of the four fields is absent
  or falsy is answered with 400 and an error that names the first such field, in
  the order id, name, department, salary, and the state is left as it was. A body
  with the four fields present and truthy, on a store that holds an array of records
  with ids none of which is the id of the body, is answered with 201 and appended
  to the store when the save succeeds. When the save fails it is answered with 400:
  the store is left as it was when the file could not be opened, and the file is
  left without its records, holding no JSON, when the failure came after it was
  opened.
\<close>

theorem post_employee_status:
  "(\<not> list_all (field_ok (JObj a)) required_fields \<longrightarrow>
      (\<exists>f. find (\<lambda>f. \<not> field_ok (JObj a) f) required_fields = Some f
         \<and> add_employee_route e (JObj a) =
           (Inr \<lparr>status = 400,
                 body = JObj [(''error'', JStr (''Missing required field: '' @ f))]\<rparr>, e)))
   \<and> (list_all (field_ok d) required_fields
        \<and> fst (load_data e) = Inr (JArr xs) \<and> list_all has_id xs
        \<and> py_getitem d ''id'' = Inr x \<and> \<not> list_ex (id_is x) xs \<longrightarrow>
      (write_ok e (JArr (xs @ [d])) \<longrightarrow>
         add_employee_route e d =
           (Inr \<lparr>status = 201,
                 body = JObj [(''message'', JStr ''Employee added successfully'')]\<rparr>,
            e\<lparr>data_file := Some (Doc (Some 4) (JArr (xs @ [d])))\<rparr>))
      \<and> (open_fault e \<noteq> None \<longrightarrow>
         add_employee_route e d =
           (Inr \<lparr>status = 400, body = JObj [(''error'', JStr ''Error saving employee'')]\<rparr>, e))
      \<and> (open_fault e = None \<and> dump_fault e (JArr (xs @ [d])) \<noteq> None \<longrightarrow>
         add_employee_route e d =
           (Inr \<lparr>status = 400, body = JObj [(''error'', JStr ''Error saving employee'')]\<rparr>,
            e\<lparr>data_file := Some Malformed\<rparr>)))"
proof -
  have 1: "\<exists>f. find (\<lambda>f. \<not> field_ok (JObj a) f) required_fields = Some f
         \<and> add_employee_route e (JObj a) =
           (Inr \<lparr>status = 400,
                 body = JObj [(''error'', JStr (''Missing required field: '' @ f))]\<rparr>, e)"
    if "\<not> list_all (field_ok (JObj a)) required_fields"
  proof -
    from that obtain f where f: "find (\<lambda>f. \<not> field_ok (JObj a) f) required_fields = Some f"
      by (cases "find (\<lambda>f. \<not> field_ok (JObj a) f) required_fields")
         (auto simp: find_None_iff list_all_iff)
    with route_missing_field [OF f, of e] show ?thesis by blast
  qed
  have 2: "(write_ok e (JArr (xs @ [d])) \<longrightarrow>
         add_employee_route e d =
           (Inr \<lparr>status = 201,
                 body = JObj [(''message'', JStr ''Employee added successfully'')]\<rparr>,
            e\<lparr>data_file := Some (Doc (Some 4) (JArr (xs @ [d])))\<rparr>))
      \<and> (open_fault e \<noteq> None \<longrightarrow>
         add_employee_route e d =
           (Inr \<lparr>status = 400, body = JObj [(''error'', JStr ''Error saving employee'')]\<rparr>, e))
      \<and> (open_fault e = None \<and> dump_fault e (JArr (xs @ [d])) \<noteq> None \<longrightarrow>
         add_employee_route e d =
           (Inr \<lparr>status = 400, body = JObj [(''error'', JStr ''Error saving employee'')]\<rparr>,
            e\<lparr>data_file := Some Malformed\<rparr>))"
    if "list_all (field_ok d) required_fields
        \<and> fst (load_data e) = Inr (JArr xs) \<and> list_all has_id xs
        \<and> py_getitem d ''id'' = Inr x \<and> \<not> list_ex (id_is x) xs"
    using that route_fresh_id [of d e xs x]
    by (auto simp: write_json_ok write_json_open_fails write_json_dump_fails)
  from 1 2 show ?thesis by blast
qed

theorem post_employee_status_witness:
  "\<not> list_all (field_ok no_salary) required_fields
   \<and> find (\<lambda>f. \<not> field_ok no_salary f) required_fields = Some ''salary''
   \<and> add_employee_route one_record no_salary =
        (Inr \<lparr>status = 400,
              body = JObj [(''error'', JStr ''Missing required field: salary'')]\<rparr>, one_record)
   \<and> list_all (field_ok emp_E2) required_fields
   \<and> fst (load_data one_record) = Inr (JArr [emp_E1]) \<and> list_all has_id [emp_E1]
   \<and> py_getitem emp_E2 ''id'' = Inr (JStr ''E2'') \<and> \<not> list_ex (id_is (JStr ''E2'')) [emp_E1]
   \<and> write_ok one_record (JArr ([emp_E1] @ [emp_E2]))
   \<and> fst (add_employee_route one_record emp_E2) =
        Inr \<lparr>status = 201, body = JObj [(''message'', JStr ''Employee added successfully'')]\<rparr>
   \<and> records (snd (add_employee_route one_record emp_E2)) = [emp_E1, emp_E2]
   \<and> fst (load_data write_denied) = Inr (JArr [])
   \<and> open_fault write_denied \<noteq> None
   \<and> add_employee_route write_denied emp_E2 =
        (Inr \<lparr>status = 400, body = JObj [(''error'', JStr ''Error saving employee'')]\<rparr>,
         write_denied)
   \<and> fst (load_data disk_full) = Inr (JArr [emp_E1])
   \<and> open_fault disk_full = None \<and> dump_fault disk_full (JArr ([emp_E1] @ [emp_E2])) \<noteq> None
   \<and> add_employee_route disk_full emp_E2 =
        (Inr \<lparr>status = 400, body = JObj [(''error'', JStr ''Error saving employee'')]\<rparr>,
         disk_full\<lparr>data_file := Some Malformed\<rparr>)
   \<and> records (snd (add_employee_route disk_full emp_E2)) = []"
proof -
  have h1: "\<not> list_all (field_ok no_salary) required_fields"
    by (simp add: sample_defs required_fields_def field_ok_def)
  have h2: "list_all (field_ok emp_E2) required_fields"
    by (simp add: sample_defs required_fields_def field_ok_def)
  have h3: "fst (load_data one_record) = Inr (JArr [emp_E1])"
    "write_ok one_record (JArr ([emp_E1] @ [emp_E2]))"
    by (simp_all add: one_record_def load_data_def write_ok_def)
  have h4: "list_all has_id [emp_E1]"
    by (simp add: has_id_def sample_defs)
  have h5: "py_getitem emp_E2 ''id'' = Inr (JStr ''E2'')"
    by (simp add: sample_defs)
  have h6: "\<not> list_ex (id_is (JStr ''E2'')) [emp_E1]"
    by (simp add: id_is_def sample_defs)
  have h7: "fst (load_data write_denied) = Inr (JArr [])" "open_fault write_denied \<noteq> None"
    by (simp_all add: write_denied_def load_data_def)
  have h8: "fst (load_data disk_full) = Inr (JArr [emp_E1])" "open_fault disk_full = None"
    "dump_fault disk_full (JArr ([emp_E1] @ [emp_E2])) \<noteq> None"
    by (simp_all add: disk_full_def load_data_def)
  have f: "find (\<lambda>f. \<not> field_ok no_salary f) required_fields = Some ''salary''"
    by (simp add: sample_defs required_fields_def field_ok_def)
  have m: "add_employee_route one_record no_salary =
        (Inr \<lparr>status = 400,
              body = JObj [(''error'', JStr ''Missing required field: salary'')]\<rparr>, one_record)"
    using post_employee_status [of "[(''id'', JStr ''E3''), (''name'', JStr ''C''),
        (''department'', JStr ''Eng'')]" one_record] h1 f
    by (auto simp: no_salary_def)
  show ?thesis
    using post_employee_status [of _ one_record emp_E2 "[emp_E1]" "JStr ''E2''"]
      post_employee_status [of _ write_denied emp_E2 "[]" "JStr ''E2''"]
      post_employee_status [of _ disk_full emp_E2 "[emp_E1]" "JStr ''E2''"]
      m f h1 h2 h3 h4 h5 h6 h7 h8
    by (simp add: records_after_write records_def)
qed

end
